theory Spec2Isabelle
  imports Complex_Main "HOL-Library.Word"
begin

section \<open>Numbers\<close>

text \<open>
  The scoring engine computes with JavaScript numbers, which are binary64 values.  The
  safety scorer and the meme correlator are embedded over exact reals: their
  properties below are bounds, orderings and values that do not depend on the
  rounding of the single operations.  The hype scorer and the portfolio composer are
  embedded with the rounding of every operation (section Binary64 arithmetic), because
  their properties depend on it.

  \<^verbatim>\<open>Math.round(x)\<close> is the integer nearest to \<open>x\<close>, a tie going up; it is exact.
\<close>

definition js_round :: "real \<Rightarrow> int" where
  "js_round x = \<lfloor>x + 1 / 2\<rfloor>"

section \<open>Safety scorer (src/utils/safetyUtils.js)\<close>

subsection \<open>Metrics, score and warnings\<close>

record safety_metrics =
  mintAuthorityExists :: bool
  freezeAuthorityExists :: bool
  topHolderPercentage :: real
  holderCount :: real
  hasLiquidity :: bool

text \<open>
  \<^verbatim>\<open>calculateSafetyScore(metrics)\<close>: the running \<^verbatim>\<open>score\<close> variable is threaded
  through the five guarded deductions in the order of the source and clamped at the end.
\<close>

definition calculateSafetyScore :: "'a safety_metrics_scheme \<Rightarrow> real" where
  "calculateSafetyScore metrics =
     (let score = 100;
          score = (if mintAuthorityExists metrics then score - 20 else score);
          score = (if freezeAuthorityExists metrics then score - 10 else score);
          score = (if topHolderPercentage metrics > 50
                   then score - min 40 (topHolderPercentage metrics - 50) else score);
          score = (if holderCount metrics < 100
                   then score - min 20 ((100 - holderCount metrics) / 5) else score);
          score = (if \<not> hasLiquidity metrics then score - 30 else score)
      in max 0 (min 100 score))"

text \<open>
  The warnings are sentences, two of them with a number formatted into the text.  Each
  sentence of the source is one constructor; the formatted number is its argument.
  \<^item> \<open>MintAuthorityWarning\<close>: "The token has an active mint authority, ..."
  \<^item> \<open>FreezeAuthorityWarning\<close>: "The token has an active freeze authority, ..."
  \<^item> \<open>ConcentrationWarning p\<close>: "The top holder owns p% of the supply, ..."
  \<^item> \<open>HolderCountWarning n\<close>: "The token has only n holders, ..."
  \<^item> \<open>NoLiquidityWarning\<close>: "The token has no detectable liquidity on major DEXs, ..."
  \<^item> \<open>UnableToAnalyze\<close>: "Unable to analyze token safety" (the catch branch)
  \<^item> \<open>ScamSimilarityWarning\<close>: "This token has some similarities to previously
    identified scam tokens." (added by the rugpull scan)
\<close>

datatype warning =
    MintAuthorityWarning
  | FreezeAuthorityWarning
  | ConcentrationWarning real
  | HolderCountWarning real
  | NoLiquidityWarning
  | UnableToAnalyze
  | ScamSimilarityWarning

text \<open>\<^verbatim>\<open>generateWarnings(metrics)\<close>: each \<^verbatim>\<open>push\<close> appends to the array.\<close>

definition generateWarnings :: "'a safety_metrics_scheme \<Rightarrow> warning list" where
  "generateWarnings metrics =
     (let warnings = [];
          warnings = (if mintAuthorityExists metrics
                      then warnings @ [MintAuthorityWarning] else warnings);
          warnings = (if freezeAuthorityExists metrics
                      then warnings @ [FreezeAuthorityWarning] else warnings);
          warnings = (if topHolderPercentage metrics > 50
                      then warnings @ [ConcentrationWarning (topHolderPercentage metrics)]
                      else warnings);
          warnings = (if holderCount metrics < 50
                      then warnings @ [HolderCountWarning (holderCount metrics)]
                      else warnings);
          warnings = (if \<not> hasLiquidity metrics
                      then warnings @ [NoLiquidityWarning] else warnings)
      in warnings)"

text \<open>
  The guards of the five deductions of \<open>calculateSafetyScore\<close>, in source order, each
  with the amount it takes off.  \<open>calculateSafetyScore_deductions\<close> below shows that the
  score is 100 less the amounts of the guards that hold, clamped.
\<close>

definition deductions :: "'a safety_metrics_scheme \<Rightarrow> (bool \<times> real) list" where
  "deductions metrics =
     [(mintAuthorityExists metrics, 20),
      (freezeAuthorityExists metrics, 10),
      (topHolderPercentage metrics > 50, min 40 (topHolderPercentage metrics - 50)),
      (holderCount metrics < 100, min 20 ((100 - holderCount metrics) / 5)),
      (\<not> hasLiquidity metrics, 30)]"

definition triggeredDeductions :: "'a safety_metrics_scheme \<Rightarrow> nat" where
  "triggeredDeductions metrics = length (filter fst (deductions metrics))"

subsection \<open>On-chain lookup\<close>

text \<open>
  The collaborators of \<^verbatim>\<open>analyzeTokenSafety\<close> are the public-key constructor (throws
  on a malformed address), \<^verbatim>\<open>getMint\<close>, \<^verbatim>\<open>connection.getProgramAccounts\<close> and the
  price endpoint queried by \<^verbatim>\<open>checkTokenLiquidity\<close>.  Each is a function that returns
  either the error it throws or its value.
\<close>

datatype lookup_error =
    InvalidPublicKey
  | MintLookupFailed
  | ProgramAccountsFailed
  | RangeError
  | RequestFailed

record mint_info =
  mintAuthority :: "string option"
  freezeAuthority :: "string option"
  mintSupply :: nat
  decimals :: nat

record token_account =
  pubkey :: string
  data :: "8 word list"

record chain =
  newPublicKey :: "string \<Rightarrow> lookup_error + string"
  getMint :: "string \<Rightarrow> lookup_error + mint_info"
  getProgramAccounts :: "string \<Rightarrow> lookup_error + token_account list"
  priceEndpoint :: "string \<Rightarrow> lookup_error + real option"

text \<open>
  \<^verbatim>\<open>buf.readBigUInt64LE(offset)\<close>: eight bytes, least significant first; a read past
  the end of the buffer throws.
\<close>

definition readBigUInt64LE :: "8 word list \<Rightarrow> nat \<Rightarrow> lookup_error + nat" where
  "readBigUInt64LE buf offset =
     (if offset + 8 \<le> length buf
      then Inr (foldr (\<lambda>b acc. unat b + 256 * acc) (take 8 (drop offset buf)) 0)
      else Inl RangeError)"

text \<open>\<^verbatim>\<open>array.map(f)\<close> where \<open>f\<close> may throw: the first error ends the map.\<close>

fun map_result :: "('a \<Rightarrow> 'e + 'b) \<Rightarrow> 'a list \<Rightarrow> 'e + 'b list" where
  "map_result f [] = Inr []"
| "map_result f (x # xs) =
     (case f x of
        Inl e \<Rightarrow> Inl e
      | Inr y \<Rightarrow> (case map_result f xs of Inl e \<Rightarrow> Inl e | Inr ys \<Rightarrow> Inr (y # ys)))"

text \<open>
  \<^verbatim>\<open>checkTokenLiquidity\<close> has its own try/catch: a failed request is "no liquidity".
  The endpoint's answer is \<open>None\<close> when it has no entry for the token, else the price.
\<close>

definition checkTokenLiquidity :: "chain \<Rightarrow> string \<Rightarrow> bool" where
  "checkTokenLiquidity c tokenAddress =
     (case priceEndpoint c tokenAddress of
        Inl e \<Rightarrow> False
      | Inr None \<Rightarrow> False
      | Inr (Some price) \<Rightarrow> price > 0)"

text \<open>
  Lines 41-62: the holder distribution.  The accounts are mapped to their balances,
  sorted by balance in descending order (the sort is stable), and the first one gives
  the top holder's share.
\<close>

definition holderDistribution :: "token_account list \<Rightarrow> real \<Rightarrow> lookup_error + real" where
  "holderDistribution programAccounts totalSupply =
     (if length programAccounts > 0 \<and> totalSupply > 0
      then (case map_result (\<lambda>account. readBigUInt64LE (data account) 64) programAccounts of
              Inl e \<Rightarrow> Inl e
            | Inr balances \<Rightarrow>
                (case sort_key (\<lambda>b. - int b) balances of
                   [] \<Rightarrow> Inr 0
                 | largest # others \<Rightarrow> Inr (real largest / totalSupply * 100)))
      else Inr 0)"

record safety_details = safety_metrics +
  supplySize :: real

record safety_analysis =
  tokenAddress :: string
  safetyScore :: real
  details :: safety_details
  warnings :: "warning list"

text \<open>The body of the \<^verbatim>\<open>try\<close> block: \<open>Inl\<close> is a thrown error.\<close>

definition analyzeTokenSafety_try :: "chain \<Rightarrow> string \<Rightarrow> lookup_error + safety_analysis" where
  "analyzeTokenSafety_try c addr =
     (case newPublicKey c addr of
        Inl e \<Rightarrow> Inl e
      | Inr mintPublicKey \<Rightarrow>
     (case getMint c mintPublicKey of
        Inl e \<Rightarrow> Inl e
      | Inr mintInfo \<Rightarrow>
     (case getProgramAccounts c mintPublicKey of
        Inl e \<Rightarrow> Inl e
      | Inr programAccounts \<Rightarrow>
     (let totalSupply = real (mintSupply mintInfo) in
      case holderDistribution programAccounts totalSupply of
        Inl e \<Rightarrow> Inl e
      | Inr topHolder \<Rightarrow>
     (let metrics = \<lparr> mintAuthorityExists = (mintAuthority mintInfo \<noteq> None),
                       freezeAuthorityExists = (freezeAuthority mintInfo \<noteq> None),
                       topHolderPercentage = topHolder,
                       holderCount = real (length programAccounts),
                       hasLiquidity = checkTokenLiquidity c addr \<rparr>
      in Inr \<lparr> tokenAddress = addr,
               safetyScore = calculateSafetyScore metrics,
               details = safety_metrics.extend metrics
                           \<lparr> supplySize = totalSupply / 10 ^ decimals mintInfo \<rparr>,
               warnings = generateWarnings metrics \<rparr>)))))"

text \<open>\<^verbatim>\<open>analyzeTokenSafety\<close>: the \<^verbatim>\<open>catch\<close> branch turns every error into a result.\<close>

definition analyzeTokenSafety :: "chain \<Rightarrow> string \<Rightarrow> safety_analysis" where
  "analyzeTokenSafety c addr =
     (case analyzeTokenSafety_try c addr of
        Inr result \<Rightarrow> result
      | Inl error \<Rightarrow>
          \<lparr> tokenAddress = addr,
            safetyScore = 0,
            details = \<lparr> mintAuthorityExists = True,
                        freezeAuthorityExists = True,
                        topHolderPercentage = 100,
                        holderCount = 0,
                        hasLiquidity = False,
                        supplySize = 0 \<rparr>,
            warnings = [UnableToAnalyze] \<rparr>)"

text \<open>
  \<^verbatim>\<open>checkScamSimilarity\<close> is a stub in the source: its three patterns are all false,
  and the score is 33 for each pattern that holds.
\<close>

record scam_similarity =
  scamScore :: real
  scamPatterns :: "bool list"

definition checkScamSimilarity :: "string \<Rightarrow> scam_similarity" where
  "checkScamSimilarity addr =
     (let patterns = [False, False, False]
      in \<lparr> scamScore = real (length (filter id patterns)) * 33,
           scamPatterns = patterns \<rparr>)"

subsection \<open>Rugpull scan\<close>

datatype risk_level = Low | Medium | High | Extreme

record rugpull_report =
  reportAddress :: string
  reportSafetyScore :: int
  riskLevel :: risk_level
  reportWarnings :: "warning list"

text \<open>
  The scan's handler after its two lookups: the combined score, the tier (decided on
  the score before rounding) and the warnings.  The echo of the metrics and the
  recommendation sentences of the report are left out; no property below reads them.
\<close>

definition rugpullReport :: "safety_analysis \<Rightarrow> scam_similarity \<Rightarrow> rugpull_report" where
  "rugpullReport safetyAnalysis scamSimilarity =
     (let combined = safetyScore safetyAnalysis * 0.7 + (100 - scamScore scamSimilarity) * 0.3;
          level = (if combined \<ge> 80 then Low
                   else if combined \<ge> 50 then Medium
                   else if combined \<ge> 20 then High
                   else Extreme)
      in \<lparr> reportAddress = tokenAddress safetyAnalysis,
           reportSafetyScore = js_round combined,
           riskLevel = level,
           reportWarnings = warnings safetyAnalysis
             @ (if scamScore scamSimilarity > 30 then [ScamSimilarityWarning] else []) \<rparr>)"

datatype scan_error = AddressRequired | ScanFailed string

text \<open>
  The handler: a missing address throws before the \<^verbatim>\<open>try\<close>; a token that the database
  does not know throws inside it and is rethrown wrapped.  \<open>known\<close> is the database
  query for the token; the insertion of the scores into the database is not part of
  the result.
\<close>

definition runRugpullScan :: "chain \<Rightarrow> (string \<Rightarrow> bool) \<Rightarrow> string \<Rightarrow> scan_error + rugpull_report" where
  "runRugpullScan c known addr =
     (if addr = [] then Inl AddressRequired
      else if \<not> known addr then Inl (ScanFailed (''Token not found: '' @ addr))
      else Inr (rugpullReport (analyzeTokenSafety c addr) (checkScamSimilarity addr)))"

section \<open>Binary64 arithmetic\<close>

text \<open>
  The hype scorer and the portfolio composer are modelled with the rounding of the
  source's numbers: a JavaScript number is a binary64 value, and every arithmetic
  operation returns the binary64 value nearest to the exact result, a tie going to the
  even significand.  \<open>fl x\<close> is that value: the significand has 53 bits, \<open>expo x\<close> is
  the exponent of its last bit, and the exponent does not go below that of the
  subnormal numbers.  Overflow to \<^verbatim>\<open>Infinity\<close> is not modelled: the numbers of the
  properties below stay far from the largest binary64 value.
\<close>

definition round_even :: "real \<Rightarrow> int" where
  "round_even z =
     (let f = \<lfloor>z\<rfloor>; r = z - of_int f
      in if r < 1 / 2 then f
         else if r > 1 / 2 then f + 1
         else if even f then f else f + 1)"

definition expo :: "real \<Rightarrow> int" where
  "expo x = max (\<lfloor>log 2 \<bar>x\<bar>\<rfloor> - 52) (- 1074)"

definition fl :: "real \<Rightarrow> real" where
  "fl x = (if x = 0 then 0 else of_int (round_even (x / 2 powi expo x)) * 2 powi expo x)"

text \<open>
  The four operations of the source on numbers, and a decimal literal of the source
  text (\<^verbatim>\<open>0.4\<close> denotes the binary64 value nearest to 4/10).
\<close>

definition fadd :: "real \<Rightarrow> real \<Rightarrow> real" where
  "fadd a b = fl (a + b)"

definition fsub :: "real \<Rightarrow> real \<Rightarrow> real" where
  "fsub a b = fl (a - b)"

definition fmul :: "real \<Rightarrow> real \<Rightarrow> real" where
  "fmul a b = fl (a * b)"

definition fdiv :: "real \<Rightarrow> real \<Rightarrow> real" where
  "fdiv a b = fl (a / b)"

definition lit :: "real \<Rightarrow> real" where
  "lit c = fl c"

text \<open>
  \<^verbatim>\<open>Math.log10\<close>: the logarithm to base 10 of a positive number, read as correctly
  rounded; \<^verbatim>\<open>-Infinity\<close> at 0 and \<^verbatim>\<open>NaN\<close> below.
\<close>

datatype log_value = LogNum real | LogNegInf | LogNaN

definition js_log10 :: "real \<Rightarrow> log_value" where
  "js_log10 x = (if x > 0 then LogNum (fl (log 10 x)) else if x = 0 then LogNegInf else LogNaN)"

text \<open>
  A number that may be \<^verbatim>\<open>NaN\<close> is a \<open>real option\<close>, \<open>None\<close> for \<^verbatim>\<open>NaN\<close>; an operation on
  such numbers yields \<^verbatim>\<open>NaN\<close> as soon as an argument is \<^verbatim>\<open>NaN\<close>, and so do \<^verbatim>\<open>Math.max\<close>
  and \<^verbatim>\<open>Math.min\<close>.
\<close>

definition nan2 :: "(real \<Rightarrow> real \<Rightarrow> real) \<Rightarrow> real option \<Rightarrow> real option \<Rightarrow> real option" where
  "nan2 f a b = (case a of None \<Rightarrow> None | Some x \<Rightarrow> (case b of None \<Rightarrow> None | Some y \<Rightarrow> Some (f x y)))"

section \<open>Rows of the database and dates\<close>

text \<open>
  A row returned by a query is an object with one property for each column of the
  table; a property that the object lacks reads as \<^verbatim>\<open>undefined\<close>, here \<open>None\<close>.
  \<open>tokensColumns\<close> are the columns of the table \<^verbatim>\<open>tokens\<close> (src/utils/database.js,
  lines 53-66), the properties of every row of \<^verbatim>\<open>SELECT * FROM tokens\<close>.
\<close>

datatype db_value = Null | Text string | Number real

type_synonym row = "string \<rightharpoonup> db_value"

definition tokensColumns :: "string list" where
  "tokensColumns =
     [''address'', ''name'', ''symbol'', ''supply'', ''decimals'', ''mint_authority'',
      ''freeze_authority'', ''holder_count'', ''creation_date'', ''is_memecoin'',
      ''discovery_date'', ''last_updated'']"

text \<open>
  The row of the token BONK that the sample-data script inserts: \<^verbatim>\<open>insertToken\<close> sets
  no creation date, and the two timestamps default to the time of insertion.
\<close>

definition bonkRow :: row where
  "bonkRow = map_of
     [(''address'', Text ''DezXAZ8z7PnrnRJjz3wXBoRgixCa6xjnB7YaB1pPB263''),
      (''name'', Text ''Bonk''),
      (''symbol'', Text ''BONK''),
      (''supply'', Number 499999975866476.1),
      (''decimals'', Number 5),
      (''mint_authority'', Null),
      (''freeze_authority'', Null),
      (''holder_count'', Number 15000),
      (''creation_date'', Null),
      (''is_memecoin'', Number 1),
      (''discovery_date'', Text ''2024-01-01 00:00:00''),
      (''last_updated'', Text ''2024-01-01 00:00:00'')]"

text \<open>
  \<^verbatim>\<open>new Date(value)\<close>, as its time value in milliseconds, \<open>None\<close> for the invalid date
  (whose time value is \<^verbatim>\<open>NaN\<close>): \<^verbatim>\<open>undefined\<close> gives the invalid date, \<^verbatim>\<open>null\<close> the
  epoch, a number its integral part when that is a valid time, and a string what the
  date parser \<open>parse\<close> makes of it.
\<close>

definition newDate :: "(string \<Rightarrow> real option) \<Rightarrow> db_value option \<Rightarrow> real option" where
  "newDate parse v =
     (case v of
        None \<Rightarrow> None
      | Some Null \<Rightarrow> Some 0
      | Some (Number n) \<Rightarrow>
          (if \<bar>n\<bar> \<le> 8640000000000000
           then Some (if 0 \<le> n then of_int \<lfloor>n\<rfloor> else of_int \<lceil>n\<rceil>) else None)
      | Some (Text s) \<Rightarrow> parse s)"

text \<open>
  \<^verbatim>\<open>(now - date) / (1000 * 60 * 60 * 24)\<close>: the age in days at the time \<open>now\<close>, \<^verbatim>\<open>NaN\<close>
  for the invalid date.
\<close>

definition ageInDays :: "real \<Rightarrow> real option \<Rightarrow> real option" where
  "ageInDays now date = nan2 fdiv (nan2 fsub (Some now) date) (Some (1000 * 60 * 60 * 24))"

text \<open>\<^verbatim>\<open>a || b\<close> on property values: \<open>b\<close> when \<open>a\<close> is falsy.\<close>

definition js_or :: "db_value option \<Rightarrow> db_value option \<Rightarrow> db_value option" where
  "js_or a b =
     (case a of
        None \<Rightarrow> b
      | Some Null \<Rightarrow> b
      | Some (Text s) \<Rightarrow> if s = [] then b else a
      | Some (Number n) \<Rightarrow> if n = 0 then b else a)"

section \<open>Hype scorer (src/functions/getHypeScore.js)\<close>

record platform_signal =
  count :: nat
  sentiment :: real

record twitter_signal = platform_signal +
  engagement :: nat

record platform_mentions =
  reddit :: platform_signal
  telegram :: platform_signal

record market_data =
  price :: real
  volume24h :: real
  liquidity :: real
  marketCap :: real
  priceChange24h :: real

text \<open>
  Lines 38-61: the weighted average of the platform sentiments; a platform takes part
  only when it has mentions.
\<close>

definition averageSentiment :: "twitter_signal \<Rightarrow> platform_mentions \<Rightarrow> real" where
  "averageSentiment twitterData platformMentions =
     (let twitterWeight = lit 0.5;
          redditWeight = lit 0.3;
          telegramWeight = lit 0.2;
          weightedSentiment = 0;
          totalWeight = 0;
          (weightedSentiment, totalWeight) =
            (if count twitterData > 0
             then (fadd weightedSentiment (fmul (sentiment twitterData) twitterWeight),
                   fadd totalWeight twitterWeight)
             else (weightedSentiment, totalWeight));
          (weightedSentiment, totalWeight) =
            (if count (reddit platformMentions) > 0
             then (fadd weightedSentiment (fmul (sentiment (reddit platformMentions)) redditWeight),
                   fadd totalWeight redditWeight)
             else (weightedSentiment, totalWeight));
          (weightedSentiment, totalWeight) =
            (if count (telegram platformMentions) > 0
             then (fadd weightedSentiment
                     (fmul (sentiment (telegram platformMentions)) telegramWeight),
                   fadd totalWeight telegramWeight)
             else (weightedSentiment, totalWeight))
      in if totalWeight > 0 then fdiv weightedSentiment totalWeight else 0)"

text \<open>
  \<^verbatim>\<open>Math.min(hi, Math.max(lo, Math.log10(x) / d))\<close> for a positive \<open>d\<close>: the maximum
  with \<open>lo\<close> absorbs \<^verbatim>\<open>-Infinity\<close>; \<^verbatim>\<open>NaN\<close> stays.
\<close>

definition clampedLog :: "real \<Rightarrow> real \<Rightarrow> real \<Rightarrow> real \<Rightarrow> real option" where
  "clampedLog hi lo x d =
     (case js_log10 x of
        LogNum l \<Rightarrow> Some (min hi (max lo (fdiv l d)))
      | LogNegInf \<Rightarrow> Some (min hi lo)
      | LogNaN \<Rightarrow> None)"

text \<open>
  Lines 33-36 and 63-88 of the handler, for the row \<open>tokenInfo\<close> that the query of line
  19 returned: the score is \<open>None\<close> when the source's \<^verbatim>\<open>hypeScore\<close> is \<^verbatim>\<open>NaN\<close>.  The
  product is formed from the left, as the source's expression is.
\<close>

definition hypeScore ::
  "real \<Rightarrow> (string \<Rightarrow> real option) \<Rightarrow> row \<Rightarrow> twitter_signal \<Rightarrow> platform_mentions
     \<Rightarrow> market_data \<Rightarrow> int option" where
  "hypeScore now parse tokenInfo twitterData platformMentions liquidityData =
     (let socialEngagement =
            fadd (fadd (real (engagement twitterData))
                       (fmul (real (count (reddit platformMentions))) 5))
                 (fmul (real (count (telegram platformMentions))) 3);
          tokenCreatedDate = newDate parse (tokenInfo ''created_at'');
          age = ageInDays now tokenCreatedDate;
          ageFactor =
            nan2 max (Some (lit 0.5))
              (nan2 min (Some (lit 1.5)) (nan2 fsub (Some 2) (nan2 fdiv age (Some 30))));
          volumeFactor = clampedLog 2 (lit 0.2) (fadd (volume24h liquidityData) 1) 4;
          priceChangeFactor =
            Some (min 2 (max (lit 0.5) (fdiv (fadd (priceChange24h liquidityData) 100) 100)));
          socialEngagementFactor = clampedLog 2 (lit 0.2) (fadd socialEngagement 1) 2;
          sentimentFactor =
            Some (fadd (fmul (averageSentiment twitterData platformMentions) (lit 0.5)) 1);
          product =
            nan2 fmul (nan2 fmul (nan2 fmul (nan2 fmul (nan2 fmul (Some 20) ageFactor)
              volumeFactor) priceChangeFactor) socialEngagementFactor) sentimentFactor
      in (case product of
            None \<Rightarrow> None
          | Some p \<Rightarrow> Some (min 100 (js_round p))))"

section \<open>Opportunity and portfolio composer (src/functions/getPortfolioStrategy.js)\<close>

subsection \<open>Per-token scores\<close>

text \<open>
  \<^verbatim>\<open>calculateNoveltyFactor(createdAt)\<close>: every comparison with \<^verbatim>\<open>NaN\<close> is false, so the
  invalid date ends in the last branch.
\<close>

definition calculateNoveltyFactor :: "real \<Rightarrow> (string \<Rightarrow> real option) \<Rightarrow> db_value option \<Rightarrow> real" where
  "calculateNoveltyFactor now parse createdAt =
     (case ageInDays now (newDate parse createdAt) of
        None \<Rightarrow> lit 0.2
      | Some age \<Rightarrow>
          if age < 1 then 1.0
          else if age < 7 then lit 0.8
          else if age < 30 then lit 0.6
          else if age < 90 then lit 0.4
          else lit 0.2)"

text \<open>
  \<^verbatim>\<open>calculateMarketFactor\<close>: \<open>None\<close> when the result is not a finite number, which is
  when a logarithm is taken at 0 or below.
\<close>

definition normalizedLog :: "real \<Rightarrow> real \<Rightarrow> real option" where
  "normalizedLog x d =
     (case js_log10 x of
        LogNum l \<Rightarrow> Some (min 1 (fdiv l d))
      | LogNegInf \<Rightarrow> None
      | LogNaN \<Rightarrow> None)"

definition calculateMarketFactor :: "market_data \<Rightarrow> real option" where
  "calculateMarketFactor marketData =
     (let priceChangeFactor =
            (if priceChange24h marketData > 0
             then fadd (min 1 (fdiv (priceChange24h marketData) 100)) (lit 0.5)
             else max 0 (fsub (lit 0.5) (fdiv \<bar>priceChange24h marketData\<bar> 100)));
          volumeFactor = normalizedLog (fadd (volume24h marketData) 1) 6;
          liquidityFactor = normalizedLog (fadd (liquidity marketData) 1) 6
      in nan2 fadd
           (nan2 fadd (Some (fmul priceChangeFactor (lit 0.4)))
                      (nan2 fmul volumeFactor (Some (lit 0.3))))
           (nan2 fmul liquidityFactor (Some (lit 0.3))))"

definition calculateRiskAdjustedScore :: "real \<Rightarrow> real \<Rightarrow> real \<Rightarrow> real" where
  "calculateRiskAdjustedScore safety noveltyFactor marketFactor =
     (let normalizedSafety = fdiv safety 100
      in fadd (fadd (fmul normalizedSafety (lit 0.5)) (fmul noveltyFactor (lit 0.25)))
              (fmul marketFactor (lit 0.25)))"

text \<open>
  The aggregate row of the social signals of the last seven days: each column is
  \<open>None\<close> for SQL's null.  A null or zero mention total is falsy; a null engagement
  total counts as 0 in the sum \<^verbatim>\<open>total_engagement + 1\<close>; a null or zero average
  sentiment is falsy.  The score is \<open>None\<close> when it is not a finite number.
\<close>

record social_data =
  avg_sentiment :: "real option"
  total_mentions :: "nat option"
  total_engagement :: "real option"

definition calculateSocialScore :: "social_data option \<Rightarrow> real option" where
  "calculateSocialScore socialData =
     (case socialData of
        None \<Rightarrow> Some (lit 0.3)
      | Some sd \<Rightarrow>
          (case total_mentions sd of
             None \<Rightarrow> Some (lit 0.3)
           | Some mentions \<Rightarrow>
               if mentions = 0 then Some (lit 0.3)
               else
                 (let mentionsFactor = normalizedLog (fadd (real mentions) 1) 3;
                      engagementFactor =
                        normalizedLog
                          (fadd (case total_engagement sd of None \<Rightarrow> 0 | Some e \<Rightarrow> e) 1) 4;
                      sentimentFactor =
                        (case avg_sentiment sd of
                           None \<Rightarrow> lit 0.5
                         | Some a \<Rightarrow> if a = 0 then lit 0.5 else fdiv (fadd a 1) 2)
                  in nan2 fadd
                       (nan2 fadd (nan2 fmul mentionsFactor (Some (lit 0.4)))
                                  (nan2 fmul engagementFactor (Some (lit 0.3))))
                       (Some (fmul sentimentFactor (lit 0.3))))))"

record meme_correlation_row =
  meme_name :: string
  correlation_score :: "real option"

definition calculateMemeScore :: "meme_correlation_row list \<Rightarrow> real" where
  "calculateMemeScore memeCorrelations =
     (if length memeCorrelations = 0 then lit 0.2
      else
        (let avgCorrelation =
               fdiv (foldl (\<lambda>sum item.
                              fadd sum (case correlation_score item of None \<Rightarrow> 0 | Some c \<Rightarrow> c))
                           0 memeCorrelations)
                    (real (length memeCorrelations));
             countBonus = min (lit 0.3) (fmul (real (length memeCorrelations)) (lit 0.05))
         in min 1 (fadd avgCorrelation countBonus)))"

text \<open>
  The scores of one token, lines 41-74 of the handler, given the token's row, its
  safety score and the data fetched for it.  A score is \<open>None\<close> when it is not a finite
  number.
\<close>

record token_scores =
  noveltyFactor :: real
  marketFactor :: "real option"
  riskAdjustedScore :: "real option"
  socialScore :: "real option"
  memeScore :: real
  opportunity :: "real option"

definition scoreToken ::
  "real \<Rightarrow> (string \<Rightarrow> real option) \<Rightarrow> row \<Rightarrow> real \<Rightarrow> market_data \<Rightarrow> social_data option
     \<Rightarrow> meme_correlation_row list \<Rightarrow> token_scores" where
  "scoreToken now parse tok safety marketData socialSignals memeCorrelations =
     (let novelty =
            calculateNoveltyFactor now parse (js_or (tok ''creation_date'') (tok ''created_at''));
          market = calculateMarketFactor marketData;
          riskAdjusted = map_option (calculateRiskAdjustedScore safety novelty) market;
          social = calculateSocialScore socialSignals;
          meme = calculateMemeScore memeCorrelations
      in \<lparr> noveltyFactor = novelty, marketFactor = market,
           riskAdjustedScore = riskAdjusted, socialScore = social, memeScore = meme,
           opportunity =
             nan2 fadd
               (nan2 fadd (nan2 fmul riskAdjusted (Some (lit 0.4)))
                          (nan2 fmul social (Some (lit 0.3))))
               (Some (fmul meme (lit 0.3))) \<rparr>)"

subsection \<open>Portfolio allocation\<close>

text \<open>A processed token, as far as the allocation reads it.\<close>

record processed_token =
  address :: string
  name :: string
  symbol :: string
  tokenSafetyScore :: real
  opportunityScore :: real

record allocation_parameters =
  maxTokens :: nat
  estabRatio :: real
  newRatio :: real
  specRatio :: real
  minSafetyScore :: real

text \<open>The \<^verbatim>\<open>switch\<close> on the risk tolerance; any other string keeps the defaults.\<close>

definition allocationParameters :: "string \<Rightarrow> allocation_parameters" where
  "allocationParameters riskTolerance =
     (if riskTolerance = ''conservative''
      then \<lparr> maxTokens = 3, estabRatio = lit 0.8, newRatio = lit 0.2, specRatio = 0,
             minSafetyScore = 70 \<rparr>
      else if riskTolerance = ''moderate''
      then \<lparr> maxTokens = 5, estabRatio = lit 0.6, newRatio = lit 0.3, specRatio = lit 0.1,
             minSafetyScore = 60 \<rparr>
      else if riskTolerance = ''aggressive''
      then \<lparr> maxTokens = 7, estabRatio = lit 0.4, newRatio = lit 0.4, specRatio = lit 0.2,
             minSafetyScore = 40 \<rparr>
      else if riskTolerance = ''very_aggressive''
      then \<lparr> maxTokens = 10, estabRatio = lit 0.2, newRatio = lit 0.5, specRatio = lit 0.3,
             minSafetyScore = 30 \<rparr>
      else \<lparr> maxTokens = 5, estabRatio = lit 0.6, newRatio = lit 0.3, specRatio = lit 0.1,
             minSafetyScore = 60 \<rparr>)"

datatype category = Established | New | Speculative

record allocation =
  token :: processed_token
  amount :: real
  category :: category

text \<open>
  \<^verbatim>\<open>slice(0, Math.max(1, Math.floor(maxTokens * share)))\<close>: the bucket keeps at least
  one token.
\<close>

definition bucketSize :: "nat \<Rightarrow> real \<Rightarrow> nat" where
  "bucketSize n share = nat (max 1 \<lfloor>fmul (real n) (lit share)\<rfloor>)"

text \<open>
  The three \<^verbatim>\<open>forEach\<close> loops of lines 318-360 have one body: the token at position
  \<open>index\<close> of a bucket of \<open>length tokens\<close> tokens gets the bucket's allocation scaled by
  its weight and divided by the bucket's length, rounded to cents.  The reasoning
  sentence of each allocation is fixed by its category and is not kept.
\<close>

definition bucketAllocations :: "real \<Rightarrow> category \<Rightarrow> processed_token list \<Rightarrow> allocation list" where
  "bucketAllocations bucketAllocation cat tokens =
     map (\<lambda>(index, tok).
            let weight = fsub 1 (fmul (fdiv (real index) (real (length tokens))) (lit 0.5));
                amt = fdiv (fmul bucketAllocation weight) (real (length tokens))
            in \<lparr> token = tok,
                 amount = fdiv (real_of_int (js_round (fmul amt 100))) 100,
                 category = cat \<rparr>)
         (enumerate 0 tokens)"

text \<open>
  Lines 286-308: the three buckets, after the cut to the bucket size and the removal of
  tokens the caller already holds.  \<open>existingPortfolio\<close> is the list of held addresses,
  \<open>None\<close> when the caller passes none.  The sorts are stable and descending.
\<close>

definition filteredEstablished ::
  "processed_token list \<Rightarrow> string \<Rightarrow> string list option \<Rightarrow> processed_token list" where
  "filteredEstablished processedTokens riskTolerance existingPortfolio =
     (let parameters = allocationParameters riskTolerance;
          established =
            take (bucketSize (maxTokens parameters) 0.4)
              (filter (\<lambda>t. tokenSafetyScore t \<ge> minSafetyScore parameters) processedTokens);
          existingAddresses = set (case existingPortfolio of None \<Rightarrow> [] | Some ps \<Rightarrow> ps)
      in filter (\<lambda>t. address t \<notin> existingAddresses) established)"

definition filteredNew ::
  "processed_token list \<Rightarrow> string \<Rightarrow> string list option \<Rightarrow> processed_token list" where
  "filteredNew processedTokens riskTolerance existingPortfolio =
     (let parameters = allocationParameters riskTolerance;
          newTokens =
            take (bucketSize (maxTokens parameters) 0.4)
              (sort_key (\<lambda>t. - opportunityScore t)
                 (filter (\<lambda>t. tokenSafetyScore t \<ge> fmul (minSafetyScore parameters) (lit 0.7)
                              \<and> tokenSafetyScore t < minSafetyScore parameters)
                    processedTokens));
          existingAddresses = set (case existingPortfolio of None \<Rightarrow> [] | Some ps \<Rightarrow> ps)
      in filter (\<lambda>t. address t \<notin> existingAddresses) newTokens)"

definition filteredSpeculative ::
  "processed_token list \<Rightarrow> string \<Rightarrow> string list option \<Rightarrow> processed_token list" where
  "filteredSpeculative processedTokens riskTolerance existingPortfolio =
     (let parameters = allocationParameters riskTolerance;
          speculative =
            take (bucketSize (maxTokens parameters) 0.2)
              (sort_key (\<lambda>t. - opportunityScore t)
                 (filter (\<lambda>t. tokenSafetyScore t < fmul (minSafetyScore parameters) (lit 0.7))
                    processedTokens));
          existingAddresses = set (case existingPortfolio of None \<Rightarrow> [] | Some ps \<Rightarrow> ps)
      in filter (\<lambda>t. address t \<notin> existingAddresses) speculative)"

text \<open>
  Lines 310-360: the \<^verbatim>\<open>allocations\<close> array.  The speculative bucket shares what is left
  of the investment after the established and the new allocation.
\<close>

definition generateAllocations ::
  "processed_token list \<Rightarrow> string \<Rightarrow> real \<Rightarrow> string list option \<Rightarrow> allocation list" where
  "generateAllocations processedTokens riskTolerance investmentSize existingPortfolio =
     (let parameters = allocationParameters riskTolerance;
          remainingAllocation = investmentSize;
          estabAllocation = fmul investmentSize (estabRatio parameters);
          remainingAllocation = fsub remainingAllocation estabAllocation;
          newAllocation = fmul investmentSize (newRatio parameters);
          remainingAllocation = fsub remainingAllocation newAllocation
      in bucketAllocations estabAllocation Established
           (filteredEstablished processedTokens riskTolerance existingPortfolio)
         @ bucketAllocations newAllocation New
           (filteredNew processedTokens riskTolerance existingPortfolio)
         @ bucketAllocations remainingAllocation Speculative
           (filteredSpeculative processedTokens riskTolerance existingPortfolio))"

text \<open>
  The returned portfolio: one recommendation for each allocation, in order.  The
  formatted strings of a recommendation (percentage, opportunity score) and its
  reasoning sentence are not kept.
\<close>

record recommendation =
  recTokenAddress :: string
  recName :: string
  recSymbol :: string
  recAmount :: real
  recSafetyScore :: real

record portfolio =
  totalInvestment :: real
  portfolioRiskTolerance :: string
  recommendations :: "recommendation list"
  categoryEstablished :: int
  categoryNew :: int
  categorySpeculative :: int

definition generatePortfolioAllocation ::
  "processed_token list \<Rightarrow> string \<Rightarrow> real \<Rightarrow> string list option \<Rightarrow> portfolio" where
  "generatePortfolioAllocation processedTokens riskTolerance investmentSize existingPortfolio =
     (let parameters = allocationParameters riskTolerance;
          allocations =
            generateAllocations processedTokens riskTolerance investmentSize existingPortfolio
      in \<lparr> totalInvestment = investmentSize,
           portfolioRiskTolerance = riskTolerance,
           recommendations =
             map (\<lambda>a. \<lparr> recTokenAddress = address (token a),
                        recName = name (token a),
                        recSymbol = symbol (token a),
                        recAmount = amount a,
                        recSafetyScore = tokenSafetyScore (token a) \<rparr>) allocations,
           categoryEstablished = js_round (fmul (estabRatio parameters) 100),
           categoryNew = js_round (fmul (newRatio parameters) 100),
           categorySpeculative = js_round (fmul (specRatio parameters) 100) \<rparr>)"

text \<open>A processed token for the concrete portfolios below.\<close>

definition sampleToken :: "string \<Rightarrow> real \<Rightarrow> real \<Rightarrow> processed_token" where
  "sampleToken addr safety opp =
     \<lparr> address = addr, name = addr, symbol = addr,
       tokenSafetyScore = safety, opportunityScore = opp \<rparr>"

section \<open>Meme correlator (src/utils/socialUtils.js)\<close>

text \<open>
  Strings are read as ASCII text.  \<^verbatim>\<open>toLowerCase\<close> maps \<open>A\<close>-\<open>Z\<close> to \<open>a\<close>-\<open>z\<close> (code
  points 65-90 to 97-122, which sets the bit of value 32); the
  class \<^verbatim>\<open>\W\<close> is every character other than a letter, a digit or the underscore.
  The properties proved of the correlator hold for the lowered strings whatever they
  are, so they do not depend on how characters beyond ASCII are lowered.
\<close>

definition toLowerChar :: "char \<Rightarrow> char" where
  "toLowerChar c =
     (let n = (of_char c :: nat)
      in if 65 \<le> n \<and> n \<le> 90
         then (case c of Char b0 b1 b2 b3 b4 b5 b6 b7 \<Rightarrow> Char b0 b1 b2 b3 b4 True b6 b7)
         else c)"

definition toLowerCase :: "string \<Rightarrow> string" where
  "toLowerCase s = map toLowerChar s"

definition isWordChar :: "char \<Rightarrow> bool" where
  "isWordChar c =
     (let n = (of_char c :: nat)
      in (48 \<le> n \<and> n \<le> 57) \<or> (65 \<le> n \<and> n \<le> 90) \<or> n = 95 \<or> (97 \<le> n \<and> n \<le> 122))"

text \<open>
  \<^verbatim>\<open>s.split(/\W+/).filter(Boolean)\<close>: the maximal runs of word characters of \<open>s\<close>, in
  order.  \<open>cur\<close> is the run being read.
\<close>

fun splitRuns :: "string \<Rightarrow> string \<Rightarrow> string list" where
  "splitRuns cur [] = (if cur = [] then [] else [cur])"
| "splitRuns cur (c # cs) =
     (if isWordChar c then splitRuns (cur @ [c]) cs
      else (if cur = [] then [] else [cur]) @ splitRuns [] cs)"

definition splitWords :: "string \<Rightarrow> string list" where
  "splitWords s = splitRuns [] s"

text \<open>\<^verbatim>\<open>haystack.includes(needle)\<close> on strings: \<open>needle\<close> occurs at some position.\<close>

fun includesString :: "string \<Rightarrow> string \<Rightarrow> bool" where
  "includesString [] needle = (needle = [])"
| "includesString (c # cs) needle =
     (if take (length needle) (c # cs) = needle then True else includesString cs needle)"

text \<open>A trending meme: the fields \<^verbatim>\<open>name\<close>, \<^verbatim>\<open>source\<close> and \<^verbatim>\<open>date\<close> of the source.\<close>

record trending_meme =
  memeName :: string
  memeSource :: string
  memeDate :: string

record correlation_entry =
  meme :: string
  correlation :: real
  entrySource :: string
  entryDate :: string

text \<open>
  The body of the loop up to the cap (lines 399-416): the correlation of the lowered
  token name and symbol with one meme.  \<^verbatim>\<open>new Set([...]).size\<close> is the number of
  distinct words.
\<close>

definition memeCorrelation :: "string \<Rightarrow> string \<Rightarrow> trending_meme \<Rightarrow> real" where
  "memeCorrelation tokenNameLC tokenSymbolLC m =
     (let lowered = toLowerCase (memeName m);
          tokenWords = splitWords tokenNameLC;
          memeWords = splitWords lowered;
          intersection = length (filter (\<lambda>word. word \<in> set memeWords) tokenWords);
          union = length (remdups (tokenWords @ memeWords));
          c = (if intersection > 0 then real intersection / real union else 0);
          c = (if includesString lowered tokenSymbolLC then c + 0.3 else c)
      in min c 1.0)"

text \<open>The loop: an entry is pushed for each meme whose correlation exceeds 0.1.\<close>

fun correlationEntries :: "string \<Rightarrow> string \<Rightarrow> trending_meme list \<Rightarrow> correlation_entry list" where
  "correlationEntries tokenNameLC tokenSymbolLC [] = []"
| "correlationEntries tokenNameLC tokenSymbolLC (m # rest) =
     (let c = memeCorrelation tokenNameLC tokenSymbolLC m
      in (if c > 0.1
          then [\<lparr> meme = memeName m, correlation = c,
                   entrySource = memeSource m, entryDate = memeDate m \<rparr>]
          else [])
         @ correlationEntries tokenNameLC tokenSymbolLC rest)"

text \<open>
  \<^verbatim>\<open>calculateMemeCorrelation\<close>: the entries, sorted by correlation in descending order
  (the sort is stable).
\<close>

definition calculateMemeCorrelation ::
  "string \<Rightarrow> string \<Rightarrow> trending_meme list \<Rightarrow> correlation_entry list" where
  "calculateMemeCorrelation tokenName tokenSymbol trendingMemes =
     (let tokenNameLC = toLowerCase tokenName;
          tokenSymbolLC = toLowerCase tokenSymbol
      in sort_key (\<lambda>e. - correlation e)
           (correlationEntries tokenNameLC tokenSymbolLC trendingMemes))"

section \<open>Properties of the safety scorer\<close>

lemma clamp_range: "0 \<le> max 0 (min 100 (x::real)) \<and> max 0 (min 100 x) \<le> 100"
  by simp

lemma clamp_mono: "a \<le> b \<Longrightarrow> max 0 (min 100 a) \<le> max 0 (min 100 (b::real))"
  by (simp add: max.coboundedI2 min.coboundedI2)

text \<open>The score in closed form: 100 less each deduction whose guard holds, clamped.\<close>

lemma calculateSafetyScore_form:
  "calculateSafetyScore m =
     max 0 (min 100 (100 - (if mintAuthorityExists m then 20 else 0)
                         - (if freezeAuthorityExists m then 10 else 0)
                         - (if topHolderPercentage m > 50
                            then min 40 (topHolderPercentage m - 50) else 0)
                         - (if holderCount m < 100
                            then min 20 ((100 - holderCount m) / 5) else 0)
                         - (if \<not> hasLiquidity m then 30 else 0)))"
  unfolding calculateSafetyScore_def Let_def
  by (cases "mintAuthorityExists m"; cases "freezeAuthorityExists m"; cases "hasLiquidity m";
      cases "topHolderPercentage m > 50"; cases "holderCount m < 100"; simp add: algebra_simps)

lemma calculateSafetyScore_deductions:
  "calculateSafetyScore m =
     max 0 (min 100 (100 - sum_list (map snd (filter fst (deductions m)))))"
  unfolding calculateSafetyScore_def deductions_def Let_def
  by (cases "mintAuthorityExists m"; cases "freezeAuthorityExists m"; cases "hasLiquidity m";
      cases "topHolderPercentage m > 50"; cases "holderCount m < 100"; simp add: algebra_simps)

lemma calculateSafetyScore_range:
  "0 \<le> calculateSafetyScore m \<and> calculateSafetyScore m \<le> 100"
  unfolding calculateSafetyScore_form by (rule clamp_range)

lemma concentration_mono:
  "p \<le> q \<Longrightarrow> (if p > 50 then min 40 (p - 50) else 0)
             \<le> (if q > 50 then min 40 (q - 50) else (0::real))"
  by auto

lemma holders_mono:
  "h \<le> k \<Longrightarrow> (if k < 100 then min 20 ((100 - k) / 5) else 0)
             \<le> (if h < 100 then min 20 ((100 - h) / 5) else (0::real))"
  by (auto simp add: min_def)

lemma calculateSafetyScore_antimono_concentration:
  assumes "p \<le> q"
  shows "calculateSafetyScore (m\<lparr>topHolderPercentage := q\<rparr>)
           \<le> calculateSafetyScore (m\<lparr>topHolderPercentage := p\<rparr>)"
proof -
  define a where "a = (if mintAuthorityExists m then 20 else 0)
                         + (if freezeAuthorityExists m then 10 else 0)
                         + (if holderCount m < 100
                            then min 20 ((100 - holderCount m) / 5) else 0)
                         + (if \<not> hasLiquidity m then 30 else (0::real))"
  have "calculateSafetyScore (m\<lparr>topHolderPercentage := x\<rparr>)
        = max 0 (min 100 (100 - a - (if x > 50 then min 40 (x - 50) else 0)))" for x
    unfolding calculateSafetyScore_form a_def by (simp add: algebra_simps)
  then show ?thesis
    using concentration_mono [OF assms] by (simp add: clamp_mono)
qed

lemma calculateSafetyScore_mono_holders:
  assumes "h \<le> k"
  shows "calculateSafetyScore (m\<lparr>holderCount := h\<rparr>)
           \<le> calculateSafetyScore (m\<lparr>holderCount := k\<rparr>)"
proof -
  define a where "a = (if mintAuthorityExists m then 20 else 0)
                         + (if freezeAuthorityExists m then 10 else 0)
                         + (if topHolderPercentage m > 50
                            then min 40 (topHolderPercentage m - 50) else 0)
                         + (if \<not> hasLiquidity m then 30 else (0::real))"
  have "calculateSafetyScore (m\<lparr>holderCount := x\<rparr>)
        = max 0 (min 100 (100 - a - (if x < 100 then min 20 ((100 - x) / 5) else 0)))" for x
    unfolding calculateSafetyScore_form a_def by (simp add: algebra_simps)
  then show ?thesis
    using holders_mono [OF assms] by (simp add: clamp_mono)
qed

text \<open>
  C1.  For every record of safety metrics the score lies in [0,100]; with the other
  metrics fixed, raising \<open>topHolderPercentage\<close> above 50 never raises the score, and below
  100 holders a larger shortfall \<open>100 - holderCount\<close> (fewer holders) never raises it.
\<close>

theorem calculateSafetyScore_bounded_monotone:
  "0 \<le> calculateSafetyScore m \<and> calculateSafetyScore m \<le> 100 \<and>
   (\<forall>p q. 50 < p \<and> p \<le> q \<longrightarrow>
      calculateSafetyScore (m\<lparr>topHolderPercentage := q\<rparr>)
        \<le> calculateSafetyScore (m\<lparr>topHolderPercentage := p\<rparr>)) \<and>
   (\<forall>h k. h \<le> k \<and> k < 100 \<longrightarrow>
      calculateSafetyScore (m\<lparr>holderCount := h\<rparr>)
        \<le> calculateSafetyScore (m\<lparr>holderCount := k\<rparr>))"
  using calculateSafetyScore_range [of m]
    calculateSafetyScore_antimono_concentration [of _ _ m]
    calculateSafetyScore_mono_holders [of _ _ m]
  by blast

theorem calculateSafetyScore_bounded_monotone_witness:
  "(50::real) < 60 \<and> (60::real) \<le> 70 \<and> (20::real) \<le> 60 \<and> (60::real) < 100 \<and>
   0 \<le> calculateSafetyScore \<lparr> mintAuthorityExists = True, freezeAuthorityExists = False,
          topHolderPercentage = 55, holderCount = 200, hasLiquidity = True \<rparr> \<and>
   calculateSafetyScore \<lparr> mintAuthorityExists = True, freezeAuthorityExists = False,
          topHolderPercentage = 55, holderCount = 200, hasLiquidity = True \<rparr> \<le> 100 \<and>
   calculateSafetyScore \<lparr> mintAuthorityExists = True, freezeAuthorityExists = False,
          topHolderPercentage = 70, holderCount = 200, hasLiquidity = True \<rparr>
     \<le> calculateSafetyScore \<lparr> mintAuthorityExists = True, freezeAuthorityExists = False,
          topHolderPercentage = 60, holderCount = 200, hasLiquidity = True \<rparr> \<and>
   calculateSafetyScore \<lparr> mintAuthorityExists = True, freezeAuthorityExists = False,
          topHolderPercentage = 55, holderCount = 20, hasLiquidity = True \<rparr>
     \<le> calculateSafetyScore \<lparr> mintAuthorityExists = True, freezeAuthorityExists = False,
          topHolderPercentage = 55, holderCount = 60, hasLiquidity = True \<rparr>"
proof -
  let ?m = "\<lparr> mintAuthorityExists = True, freezeAuthorityExists = False,
          topHolderPercentage = 55, holderCount = 200, hasLiquidity = True \<rparr>"
  have a: "(50::real) < 60 \<and> (60::real) \<le> 70" and b: "(20::real) \<le> 60 \<and> (60::real) < 100"
    by simp_all
  note t = calculateSafetyScore_bounded_monotone [of ?m]
  from t have "calculateSafetyScore (?m\<lparr>topHolderPercentage := 70\<rparr>)
        \<le> calculateSafetyScore (?m\<lparr>topHolderPercentage := 60\<rparr>)"
    using a by blast
  moreover from t have "calculateSafetyScore (?m\<lparr>holderCount := 20\<rparr>)
        \<le> calculateSafetyScore (?m\<lparr>holderCount := 60\<rparr>)"
    using b by blast
  ultimately show ?thesis using t a b by simp
qed

text \<open>
  C8.  The scenario of the specification: mint authority present, no freeze authority,
  top holder at 60 percent, 200 holders, liquidity present gives the contract score 70;
  a contract score of 70 combined with a scam similarity of 0 is reported as 79, and
  the tier is Medium, not Low.
\<close>

theorem scenario_contract_70_combined_79_medium:
  "calculateSafetyScore \<lparr> mintAuthorityExists = True, freezeAuthorityExists = False,
       topHolderPercentage = 60, holderCount = 200, hasLiquidity = True \<rparr> = 70 \<and>
   reportSafetyScore (rugpullReport
       \<lparr> tokenAddress = addr, safetyScore = 70, details = d, warnings = ws \<rparr>
       \<lparr> scamScore = 0, scamPatterns = ps \<rparr>) = 79 \<and>
   riskLevel (rugpullReport
       \<lparr> tokenAddress = addr, safetyScore = 70, details = d, warnings = ws \<rparr>
       \<lparr> scamScore = 0, scamPatterns = ps \<rparr>) = Medium \<and>
   riskLevel (rugpullReport
       \<lparr> tokenAddress = addr, safetyScore = 70, details = d, warnings = ws \<rparr>
       \<lparr> scamScore = 0, scamPatterns = ps \<rparr>) \<noteq> Low"
  by (simp add: calculateSafetyScore_def rugpullReport_def js_round_def Let_def)

text \<open>
  C4, as stated, fails: with 75 holders the holder-count deduction is taken (the score
  is 95, see \<open>holderCount_75_deducts\<close>) and no warning is emitted, because the warning
  is guarded by \<open>holderCount < 50\<close> while the deduction is guarded by \<open>holderCount < 100\<close>.
\<close>

theorem warnings_per_deduction_counterexample:
  "length (generateWarnings \<lparr> mintAuthorityExists = False, freezeAuthorityExists = False,
       topHolderPercentage = 10, holderCount = 75, hasLiquidity = True \<rparr>)
   \<noteq> triggeredDeductions \<lparr> mintAuthorityExists = False, freezeAuthorityExists = False,
       topHolderPercentage = 10, holderCount = 75, hasLiquidity = True \<rparr>"
  by (simp add: generateWarnings_def triggeredDeductions_def deductions_def Let_def)

lemma holderCount_75_deducts:
  "calculateSafetyScore \<lparr> mintAuthorityExists = False, freezeAuthorityExists = False,
       topHolderPercentage = 10, holderCount = 75, hasLiquidity = True \<rparr> = 95"
  by (simp add: calculateSafetyScore_def Let_def)

lemma generateWarnings_append:
  "generateWarnings m =
     (if mintAuthorityExists m then [MintAuthorityWarning] else []) @
     (if freezeAuthorityExists m then [FreezeAuthorityWarning] else []) @
     (if topHolderPercentage m > 50 then [ConcentrationWarning (topHolderPercentage m)] else []) @
     (if holderCount m < 50 then [HolderCountWarning (holderCount m)] else []) @
     (if \<not> hasLiquidity m then [NoLiquidityWarning] else [])"
  unfolding generateWarnings_def Let_def
  by (cases "mintAuthorityExists m"; cases "freezeAuthorityExists m"; cases "hasLiquidity m";
      cases "topHolderPercentage m > 50"; cases "holderCount m < 50"; simp)

text \<open>
  C4, amended.  The safety analysis emits exactly one warning for each of the
  conditions: mint authority present; freeze authority present;
  \<open>topHolderPercentage > 50\<close>; \<open>holderCount < 50\<close>; no liquidity.  No warning is emitted
  twice, and each is present exactly when its condition holds.  The rugpull scan
  appends one further warning to those of the analysis exactly when the scam
  similarity score exceeds 30.
\<close>

theorem warnings_per_condition:
  "length (generateWarnings m) =
     length (filter id [mintAuthorityExists m, freezeAuthorityExists m,
                        topHolderPercentage m > 50, holderCount m < 50, \<not> hasLiquidity m]) \<and>
   distinct (generateWarnings m) \<and>
   (MintAuthorityWarning \<in> set (generateWarnings m)) = mintAuthorityExists m \<and>
   (FreezeAuthorityWarning \<in> set (generateWarnings m)) = freezeAuthorityExists m \<and>
   (ConcentrationWarning (topHolderPercentage m) \<in> set (generateWarnings m))
      = (topHolderPercentage m > 50) \<and>
   (HolderCountWarning (holderCount m) \<in> set (generateWarnings m)) = (holderCount m < 50) \<and>
   (NoLiquidityWarning \<in> set (generateWarnings m)) = (\<not> hasLiquidity m) \<and>
   reportWarnings (rugpullReport a s) =
      warnings a @ (if scamScore s > 30 then [ScamSimilarityWarning] else []) \<and>
   length (reportWarnings (rugpullReport a s)) =
      length (warnings a) + (if scamScore s > 30 then 1 else 0)"
  unfolding generateWarnings_append
  by (cases "mintAuthorityExists m"; cases "freezeAuthorityExists m"; cases "hasLiquidity m";
      cases "topHolderPercentage m > 50"; cases "holderCount m < 50";
      simp add: rugpullReport_def Let_def)

text \<open>
  C6.  When the on-chain lookup fails (the address is no public key, or the mint
  lookup or the account listing throws), \<open>analyzeTokenSafety\<close> returns the pessimistic
  result: score 0, both authorities assumed present, top holder at 100 percent, no
  holders, no liquidity.  The function has no error value: it returns in every case.
\<close>

theorem analyzeTokenSafety_lookup_failure:
  assumes "newPublicKey c addr = Inl e \<or>
           (\<exists>key. newPublicKey c addr = Inr key \<and>
                  (getMint c key = Inl e \<or> getProgramAccounts c key = Inl e))"
  shows "analyzeTokenSafety c addr =
           \<lparr> tokenAddress = addr,
             safetyScore = 0,
             details = \<lparr> mintAuthorityExists = True,
                         freezeAuthorityExists = True,
                         topHolderPercentage = 100,
                         holderCount = 0,
                         hasLiquidity = False,
                         supplySize = 0 \<rparr>,
             warnings = [UnableToAnalyze] \<rparr>"
proof -
  from assms have "\<exists>e'. analyzeTokenSafety_try c addr = Inl e'"
    by (auto simp add: analyzeTokenSafety_try_def split: sum.splits)
  then show ?thesis
    by (auto simp add: analyzeTokenSafety_def)
qed

theorem analyzeTokenSafety_lookup_failure_witness:
  "getMint \<lparr> newPublicKey = Inr, getMint = (\<lambda>k. Inl MintLookupFailed),
             getProgramAccounts = (\<lambda>k. Inr []), priceEndpoint = (\<lambda>k. Inr None) \<rparr> ''mint1''
     = Inl MintLookupFailed \<and>
   analyzeTokenSafety \<lparr> newPublicKey = Inr, getMint = (\<lambda>k. Inl MintLookupFailed),
             getProgramAccounts = (\<lambda>k. Inr []), priceEndpoint = (\<lambda>k. Inr None) \<rparr> ''mint1''
     = \<lparr> tokenAddress = ''mint1'',
         safetyScore = 0,
         details = \<lparr> mintAuthorityExists = True,
                     freezeAuthorityExists = True,
                     topHolderPercentage = 100,
                     holderCount = 0,
                     hasLiquidity = False,
                     supplySize = 0 \<rparr>,
         warnings = [UnableToAnalyze] \<rparr>"
proof -
  let ?c = "\<lparr> newPublicKey = Inr, getMint = (\<lambda>k. Inl MintLookupFailed),
             getProgramAccounts = (\<lambda>k. Inr []), priceEndpoint = (\<lambda>k. Inr None) \<rparr>"
  have h: "newPublicKey ?c ''mint1'' = Inl MintLookupFailed \<or>
           (\<exists>key. newPublicKey ?c ''mint1'' = Inr key \<and>
                  (getMint ?c key = Inl MintLookupFailed
                   \<or> getProgramAccounts ?c key = Inl MintLookupFailed))"
    by simp
  show ?thesis
    using analyzeTokenSafety_lookup_failure [OF h] by simp
qed

section \<open>Properties of the binary64 rounding\<close>

lemma round_even_near: "\<bar>of_int (round_even z) - z\<bar> \<le> 1 / 2"
  unfolding round_even_def Let_def by (auto simp: abs_le_iff; linarith)

lemma round_even_mono:
  assumes "z \<le> w" shows "round_even z \<le> round_even w"
proof (rule ccontr)
  assume "\<not> round_even z \<le> round_even w"
  then have a: "round_even w + 1 \<le> round_even z" by simp
  then have a': "real_of_int (round_even w) + 1 \<le> real_of_int (round_even z)"
    by (metis of_int_1 of_int_add of_int_le_iff)
  have "z = w"
    using round_even_near [of z] round_even_near [of w] assms a' by (simp add: abs_le_iff)
  with a show False by simp
qed

lemma round_even_of_int [simp]: "round_even (of_int k) = k"
  by (simp add: round_even_def)

lemma round_even_nonneg: "0 \<le> z \<Longrightarrow> 0 \<le> round_even z"
  using round_even_mono [of 0 z] round_even_of_int [of 0] by simp

lemma round_even_nonpos: "z \<le> 0 \<Longrightarrow> round_even z \<le> 0"
  using round_even_mono [of z 0] round_even_of_int [of 0] by simp

lemma two_powi_pos [simp]: "0 < (2::real) powi e"
  by (simp add: zero_less_power_int)

lemma fl_0 [simp]: "fl 0 = 0"
  by (simp add: fl_def)

lemma fl_nonneg: "0 \<le> x \<Longrightarrow> 0 \<le> fl x"
  by (simp add: fl_def round_even_nonneg)

lemma fl_nonpos: "x \<le> 0 \<Longrightarrow> fl x \<le> 0"
  by (auto simp add: fl_def mult_le_0_iff divide_le_0_iff intro!: round_even_nonpos)

lemma fl_error_ulp: "\<bar>fl x - x\<bar> \<le> 2 powi expo x / 2"
proof (cases "x = 0")
  case True then show ?thesis by simp
next
  case False
  define p where "p = (2::real) powi expo x"
  have p: "0 < p" by (simp add: p_def)
  have "fl x - x = (of_int (round_even (x / p)) - x / p) * p"
    using False p by (simp add: fl_def p_def algebra_simps)
  then have "\<bar>fl x - x\<bar> = \<bar>of_int (round_even (x / p)) - x / p\<bar> * p"
    using p by (simp add: abs_mult)
  also have "\<dots> \<le> 1 / 2 * p"
    using round_even_near [of "x / p"] p by (intro mult_right_mono) simp_all
  finally show ?thesis by (simp add: p_def)
qed

lemma powr_powi: "(2::real) powr (of_int k) = 2 powi k"
  by (simp add: powr_real_of_int')

lemma floor_log2_eq:
  assumes "x \<noteq> 0" "2 powi k \<le> \<bar>x\<bar>" "\<bar>x\<bar> < 2 powi (k + 1)"
  shows "\<lfloor>log 2 \<bar>x\<bar>\<rfloor> = k"
proof -
  have "0 < \<bar>x\<bar>" using assms(1) by simp
  then show ?thesis
    using assms(2,3) by (subst floor_log_eq_powr_iff) (simp_all add: powr_powi [symmetric])
qed

lemma floor_log2_le:
  assumes "x \<noteq> 0" "\<bar>x\<bar> < 2 powi (k + 1)"
  shows "\<lfloor>log 2 \<bar>x\<bar>\<rfloor> \<le> k"
proof -
  have "\<bar>x\<bar> < 2 powr (of_int (k + 1))"
    using assms(2) by (simp only: powr_powi)
  then have "log 2 \<bar>x\<bar> < of_int (k + 1)"
    using assms(1) by (subst log_less_iff) simp_all
  then show ?thesis by (simp add: floor_le_iff)
qed

lemma floor_log2_bounds:
  assumes "x \<noteq> 0"
  shows "2 powi \<lfloor>log 2 \<bar>x\<bar>\<rfloor> \<le> \<bar>x\<bar>" "\<bar>x\<bar> < 2 powi (\<lfloor>log 2 \<bar>x\<bar>\<rfloor> + 1)"
proof -
  have "0 < \<bar>x\<bar>" using assms by simp
  then have "2 powr (of_int \<lfloor>log 2 \<bar>x\<bar>\<rfloor>) \<le> \<bar>x\<bar> \<and> \<bar>x\<bar> < 2 powr (of_int (\<lfloor>log 2 \<bar>x\<bar>\<rfloor> + 1))"
    using floor_log_eq_powr_iff [of "\<bar>x\<bar>" 2 "\<lfloor>log 2 \<bar>x\<bar>\<rfloor>"] by simp
  then show "2 powi \<lfloor>log 2 \<bar>x\<bar>\<rfloor> \<le> \<bar>x\<bar>" "\<bar>x\<bar> < 2 powi (\<lfloor>log 2 \<bar>x\<bar>\<rfloor> + 1)"
    by (simp_all only: powr_powi)
qed


lemma expo_normal:
  assumes "2 powi (e + 52) \<le> \<bar>x\<bar>" "\<bar>x\<bar> < 2 powi (e + 53)" "- 1074 \<le> e"
  shows "expo x = e"
proof -
  have "0 < (2::real) powi (e + 52)" by (rule two_powi_pos)
  with assms(1) have "0 < \<bar>x\<bar>" by linarith
  then have "x \<noteq> 0" by auto
  then have "\<lfloor>log 2 \<bar>x\<bar>\<rfloor> = e + 52"
    using assms(1,2) by (intro floor_log2_eq) (simp_all add: add.commute add.left_commute)
  then show ?thesis using assms(3) by (simp add: expo_def)
qed

lemma expo_subnormal:
  assumes "x \<noteq> 0" "\<bar>x\<bar> < 2 powi (- 1022)"
  shows "expo x = - 1074"
proof -
  have "\<lfloor>log 2 \<bar>x\<bar>\<rfloor> \<le> - 1023"
    using assms by (intro floor_log2_le) simp_all
  then have "\<lfloor>log 2 \<bar>x\<bar>\<rfloor> - 52 \<le> - 1074" by linarith
  then show ?thesis unfolding expo_def by (rule max_absorb2)
qed

lemma fl_eval:
  assumes "2 powi (e + 52) \<le> \<bar>x\<bar>" "\<bar>x\<bar> < 2 powi (e + 53)" "- 1074 \<le> e"
  shows "fl x = of_int (round_even (x / 2 powi e)) * 2 powi e"
proof -
  have "0 < (2::real) powi (e + 52)" by (rule two_powi_pos)
  with assms(1) have "0 < \<bar>x\<bar>" by linarith
  then have "x \<noteq> 0" by auto
  then show ?thesis by (simp add: fl_def expo_normal [OF assms])
qed

lemma expo_le:
  assumes "\<bar>x\<bar> \<le> 2 powi k" "- 1022 \<le> k" "x \<noteq> 0"
  shows "expo x \<le> k - 52"
proof -
  have "\<bar>x\<bar> < 2 powi (k + 1)"
  proof -
    have "(2::real) powi k < 2 powi (k + 1)"
      by (intro power_int_strict_increasing) simp_all
    with assms(1) show ?thesis by simp
  qed
  then have "\<lfloor>log 2 \<bar>x\<bar>\<rfloor> \<le> k"
    using assms(3) by (intro floor_log2_le)
  then show ?thesis using assms(2) by (simp add: expo_def)
qed

lemma fl_error:
  assumes "\<bar>x\<bar> \<le> 2 powi k" "- 1022 \<le> k"
  shows "\<bar>fl x - x\<bar> \<le> 2 powi (k - 53)"
proof (cases "x = 0")
  case True then show ?thesis by simp
next
  case False
  have "expo x \<le> k - 52" by (rule expo_le [OF assms False])
  then have "(2::real) powi expo x \<le> 2 powi (k - 52)"
    by (intro power_int_increasing) simp_all
  also have "(2::real) powi (k - 52) = 2 * 2 powi (k - 53)"
    by (simp add: power_int_diff)
  finally show ?thesis using fl_error_ulp [of x] by simp
qed

lemma fl_mono_pos:
  assumes "0 < x" "x \<le> y"
  shows "fl x \<le> fl y"
proof -
  have y: "0 < y" using assms by simp
  have xn: "x \<noteq> 0" and yn: "y \<noteq> 0" using assms by simp_all
  have "log 2 x \<le> log 2 y" using assms by simp
  then have fl_le: "\<lfloor>log 2 \<bar>x\<bar>\<rfloor> \<le> \<lfloor>log 2 \<bar>y\<bar>\<rfloor>"
    using assms y by (simp add: floor_mono)
  then have e: "expo x \<le> expo y" by (simp add: expo_def)
  show ?thesis
  proof (cases "expo x = expo y")
    case True
    have "x / 2 powi expo y \<le> y / 2 powi expo y"
      using assms(2) by (simp add: divide_right_mono)
    then have "round_even (x / 2 powi expo y) \<le> round_even (y / 2 powi expo y)"
      by (rule round_even_mono)
    then have "of_int (round_even (x / 2 powi expo y)) * 2 powi expo y
                 \<le> of_int (round_even (y / 2 powi expo y)) * (2::real) powi expo y"
      by (intro mult_right_mono) simp_all
    then show ?thesis using xn yn True by (simp add: fl_def)
  next
    case False
    with e have lt: "expo x + 1 \<le> expo y" by simp
    then have "- 1074 < expo y" using e by (simp add: expo_def)
    then have ey: "expo y = \<lfloor>log 2 \<bar>y\<bar>\<rfloor> - 52" by (simp add: expo_def max_def split: if_splits)
    have "2 powi (expo y + 52) \<le> \<bar>y\<bar>"
      using floor_log2_bounds(1) [OF yn] by (simp add: ey)
    then have "2 powi (expo y + 52) / 2 powi expo y \<le> y / 2 powi expo y"
      using y by (simp add: divide_right_mono)
    then have "of_int (2 ^ 52) \<le> y / 2 powi expo y"
      by (simp add: power_int_add)
    then have "round_even (of_int (2 ^ 52)) \<le> round_even (y / 2 powi expo y)"
      by (rule round_even_mono)
    then have "(2::real) ^ 52 \<le> of_int (round_even (y / 2 powi expo y))"
      by (simp only: round_even_of_int) (metis of_int_le_iff of_int_numeral of_int_power)
    then have "2 ^ 52 * 2 powi expo y \<le> of_int (round_even (y / 2 powi expo y)) * (2::real) powi expo y"
      by (intro mult_right_mono) simp_all
    then have ylow: "2 powi (expo y + 52) \<le> fl y"
      using yn by (simp add: fl_def power_int_add mult.commute)
    have "\<lfloor>log 2 \<bar>x\<bar>\<rfloor> \<le> expo x + 52" by (simp add: expo_def)
    then have "\<lfloor>log 2 \<bar>x\<bar>\<rfloor> + 1 \<le> expo x + 53" by simp
    then have "(2::real) powi (\<lfloor>log 2 \<bar>x\<bar>\<rfloor> + 1) \<le> 2 powi (expo x + 53)"
      by (intro power_int_increasing) simp_all
    then have "\<bar>x\<bar> \<le> 2 powi (expo x + 53)"
      using floor_log2_bounds(2) [OF xn] by simp
    then have "x / 2 powi expo x \<le> 2 powi (expo x + 53) / 2 powi expo x"
      using assms(1) by (simp add: divide_right_mono)
    then have "x / 2 powi expo x \<le> of_int (2 ^ 53)"
      by (simp add: power_int_add)
    then have "round_even (x / 2 powi expo x) \<le> round_even (of_int (2 ^ 53))"
      by (rule round_even_mono)
    then have "of_int (round_even (x / 2 powi expo x)) \<le> (2::real) ^ 53"
      by (simp only: round_even_of_int) (metis of_int_le_iff of_int_numeral of_int_power)
    then have "of_int (round_even (x / 2 powi expo x)) * 2 powi expo x \<le> 2 ^ 53 * (2::real) powi expo x"
      by (intro mult_right_mono) simp_all
    then have xup: "fl x \<le> 2 powi (expo x + 53)"
      using xn by (simp add: fl_def power_int_add mult.commute)
    have "(2::real) powi (expo x + 53) \<le> 2 powi (expo y + 52)"
      using lt by (intro power_int_increasing) simp_all
    with xup ylow show ?thesis by simp
  qed
qed

lemma fl_mono:
  assumes "x \<le> y" "0 \<le> y"
  shows "fl x \<le> fl y"
proof (cases "0 < x")
  case True
  then show ?thesis using assms(1) by (rule fl_mono_pos)
next
  case False
  then have "fl x \<le> 0" by (intro fl_nonpos) simp
  moreover have "0 \<le> fl y" using assms(2) by (rule fl_nonneg)
  ultimately show ?thesis by simp
qed


lemma round_even_minus: "round_even (- z) = - round_even z"
proof (cases "z \<in> \<int>")
  case True
  then obtain k where "z = of_int k" by (auto elim: Ints_cases)
  then have "- z = of_int (- k)" by simp
  then show ?thesis unfolding \<open>z = of_int k\<close> by (simp only: round_even_of_int)
next
  case False
  then have ni: "z \<noteq> of_int \<lfloor>z\<rfloor>"
    by (metis Ints_of_int)
  then have f: "\<lfloor>- z\<rfloor> = - \<lfloor>z\<rfloor> - 1"
    by (simp add: floor_minus ceiling_altdef)
  from ni have r: "0 < z - of_int \<lfloor>z\<rfloor>" "z - of_int \<lfloor>z\<rfloor> < 1"
    by linarith+
  have e: "even (- \<lfloor>z\<rfloor> - 1) = odd \<lfloor>z\<rfloor>" by simp
  show ?thesis
    unfolding round_even_def Let_def f e using r by auto
qed

lemma fl_minus: "fl (- x) = - fl x"
  by (simp add: fl_def expo_def round_even_minus)

lemma fl_mono_full:
  assumes "x \<le> y" shows "fl x \<le> fl y"
proof (cases "0 \<le> y")
  case True
  with assms show ?thesis by (rule fl_mono)
next
  case False
  then have "- y \<le> - x" "0 \<le> - x" using assms by simp_all
  then have "fl (- y) \<le> fl (- x)" by (rule fl_mono)
  then show ?thesis by (simp add: fl_minus)
qed

lemma fl_pow2:
  assumes "- 1022 \<le> k" shows "fl (2 powi k) = 2 powi k"
proof -
  have "fl (2 powi k) = of_int (round_even (2 powi k / 2 powi (k - 52))) * 2 powi (k - 52)"
    using assms
    by (intro fl_eval) (simp_all add: power_int_increasing power_int_strict_increasing)
  also have "(2::real) powi k / 2 powi (k - 52) = of_int (2 ^ 52)"
    by (simp add: power_int_diff)
  also have "of_int (round_even (of_int (2 ^ 52))) * 2 powi (k - 52) = (2::real) powi k"
    by (simp only: round_even_of_int) (simp add: power_int_diff)
  finally show ?thesis .
qed

lemma fl_abs_le:
  assumes "\<bar>x\<bar> \<le> 2 powi k" "- 1022 \<le> k"
  shows "\<bar>fl x\<bar> \<le> 2 powi k"
proof -
  have "fl x \<le> fl (2 powi k)" using assms(1) by (intro fl_mono_full) simp
  moreover have "fl (- (2 powi k)) \<le> fl x" using assms(1) by (intro fl_mono_full) simp
  ultimately show ?thesis by (simp add: fl_minus fl_pow2 [OF assms(2)] abs_le_iff)
qed

text \<open>
  The rounding at the numbers that the concrete computations below meet: each is the
  binary64 value of its argument, found from the exponent of the argument.
\<close>

lemma fl_c0: "fl (1 / 128) = 1 / 128"
  by (subst fl_eval [where e = "- 59"]) (simp_all add: round_even_def Let_def power_int_minus)

lemma fl_c1: "fl (1 / 100) = 5764607523034235 / 576460752303423488"
  by (subst fl_eval [where e = "- 59"]) (simp_all add: round_even_def Let_def power_int_minus)

lemma fl_c2: "fl (1 / 20) = 3602879701896397 / 72057594037927936"
  by (subst fl_eval [where e = "- 57"]) (simp_all add: round_even_def Let_def power_int_minus)

lemma fl_c3: "fl (3602879701896397 / 72057594037927936) = 3602879701896397 / 72057594037927936"
  by (subst fl_eval [where e = "- 57"]) (simp_all add: round_even_def Let_def power_int_minus)

lemma fl_c4: "fl (1 / 10) = 3602879701896397 / 36028797018963968"
  by (subst fl_eval [where e = "- 56"]) (simp_all add: round_even_def Let_def power_int_minus)

lemma fl_c5: "fl (1 / 5) = 3602879701896397 / 18014398509481984"
  by (subst fl_eval [where e = "- 55"]) (simp_all add: round_even_def Let_def power_int_minus)

lemma fl_c6: "fl (1 / 4) = 1 / 4"
  by (subst fl_eval [where e = "- 54"]) (simp_all add: round_even_def Let_def power_int_minus)

lemma fl_c7: "fl (5404319552844595 / 18014398509481984) = 5404319552844595 / 18014398509481984"
  by (subst fl_eval [where e = "- 54"]) (simp_all add: round_even_def Let_def power_int_minus)

lemma fl_c8: "fl (3 / 10) = 5404319552844595 / 18014398509481984"
  by (subst fl_eval [where e = "- 54"]) (simp_all add: round_even_def Let_def power_int_minus)

lemma fl_c9: "fl (1351079888211149 / 4503599627370496) = 1351079888211149 / 4503599627370496"
  by (subst fl_eval [where e = "- 54"]) (simp_all add: round_even_def Let_def power_int_minus)

lemma fl_c10: "fl (7910139745424150091741541653545 / 20282409603651670423947251286016) = 7025615418697973 / 18014398509481984"
  by (subst fl_eval [where e = "- 54"]) (simp_all add: round_even_def Let_def power_int_minus)

lemma fl_c11: "fl (2 / 5) = 3602879701896397 / 9007199254740992"
  by (subst fl_eval [where e = "- 54"]) (simp_all add: round_even_def Let_def power_int_minus)

lemma fl_c12: "fl (3602879701896397 / 9007199254740992) = 3602879701896397 / 9007199254740992"
  by (subst fl_eval [where e = "- 54"]) (simp_all add: round_even_def Let_def power_int_minus)

lemma fl_c13: "fl (17037224067067404822447553207337 / 40564819207303340847894502572032) = 3783023686991217 / 9007199254740992"
  by (subst fl_eval [where e = "- 54"]) (simp_all add: round_even_def Let_def power_int_minus)

lemma fl_c14: "fl (1 / 2) = 1 / 2"
  by (subst fl_eval [where e = "- 53"]) (simp_all add: round_even_def Let_def power_int_minus)

lemma fl_c15: "fl (5404319552844595 / 9007199254740992) = 5404319552844595 / 9007199254740992"
  by (subst fl_eval [where e = "- 53"]) (simp_all add: round_even_def Let_def power_int_minus)

lemma fl_c16: "fl (3 / 5) = 5404319552844595 / 9007199254740992"
  by (subst fl_eval [where e = "- 53"]) (simp_all add: round_even_def Let_def power_int_minus)

lemma fl_c17: "fl (10808639105689191 / 18014398509481984) = 1351079888211149 / 2251799813685248"
  by (subst fl_eval [where e = "- 53"]) (simp_all add: round_even_def Let_def power_int_minus)

lemma fl_c18: "fl (7 / 10) = 3152519739159347 / 4503599627370496"
  by (subst fl_eval [where e = "- 53"]) (simp_all add: round_even_def Let_def power_int_minus)

lemma fl_c19: "fl (12610078956637389 / 18014398509481984) = 3152519739159347 / 4503599627370496"
  by (subst fl_eval [where e = "- 53"]) (simp_all add: round_even_def Let_def power_int_minus)

lemma fl_c20: "fl (12970366926827029 / 18014398509481984) = 3242591731706757 / 4503599627370496"
  by (subst fl_eval [where e = "- 53"]) (simp_all add: round_even_def Let_def power_int_minus)

lemma fl_c21: "fl (3 / 4) = 3 / 4"
  by (subst fl_eval [where e = "- 53"]) (simp_all add: round_even_def Let_def power_int_minus)

lemma fl_c22: "fl (25 / 32) = 25 / 32"
  by (subst fl_eval [where e = "- 53"]) (simp_all add: round_even_def Let_def power_int_minus)

lemma fl_c23: "fl (4 / 5) = 3602879701896397 / 4503599627370496"
  by (subst fl_eval [where e = "- 53"]) (simp_all add: round_even_def Let_def power_int_minus)

lemma fl_c24: "fl (14591662792680407 / 18014398509481984) = 1823957849085051 / 2251799813685248"
  by (subst fl_eval [where e = "- 53"]) (simp_all add: round_even_def Let_def power_int_minus)

lemma fl_c25: "fl (16212958658533787 / 18014398509481984) = 4053239664633447 / 4503599627370496"
  by (subst fl_eval [where e = "- 53"]) (simp_all add: round_even_def Let_def power_int_minus)

lemma fl_c26: "fl (18014398509481983 / 18014398509481984) = 1"
  by (subst fl_eval [where e = "- 53"]) (simp_all add: round_even_def Let_def power_int_minus)

lemma fl_c27: "fl (1) = 1"
  by (subst fl_eval [where e = "- 52"]) (simp_all add: round_even_def Let_def power_int_minus)

lemma fl_c28: "fl (18014398509481985 / 18014398509481984) = 1"
  by (subst fl_eval [where e = "- 52"]) (simp_all add: round_even_def Let_def power_int_minus)

lemma fl_c29: "fl (18374686479671623 / 18014398509481984) = 2296835809958953 / 2251799813685248"
  by (subst fl_eval [where e = "- 52"]) (simp_all add: round_even_def Let_def power_int_minus)

lemma fl_c30: "fl (51 / 50) = 2296835809958953 / 2251799813685248"
  by (subst fl_eval [where e = "- 52"]) (simp_all add: round_even_def Let_def power_int_minus)

lemma fl_c31: "fl (21 / 20) = 4728779608739021 / 4503599627370496"
  by (subst fl_eval [where e = "- 52"]) (simp_all add: round_even_def Let_def power_int_minus)

lemma fl_c32: "fl (75660473739824333 / 72057594037927936) = 4728779608739021 / 4503599627370496"
  by (subst fl_eval [where e = "- 52"]) (simp_all add: round_even_def Let_def power_int_minus)

lemma fl_c33: "fl (4728779608739021 / 4503599627370496) = 4728779608739021 / 4503599627370496"
  by (subst fl_eval [where e = "- 52"]) (simp_all add: round_even_def Let_def power_int_minus)

lemma fl_c34: "fl (111 / 100) = 4998995586381251 / 4503599627370496"
  by (subst fl_eval [where e = "- 52"]) (simp_all add: round_even_def Let_def power_int_minus)

lemma fl_c35: "fl (19995982345525003 / 18014398509481984) = 4998995586381251 / 4503599627370496"
  by (subst fl_eval [where e = "- 52"]) (simp_all add: round_even_def Let_def power_int_minus)

lemma fl_c36: "fl (6 / 5) = 5404319552844595 / 4503599627370496"
  by (subst fl_eval [where e = "- 52"]) (simp_all add: round_even_def Let_def power_int_minus)

lemma fl_c37: "fl (10808639105689191 / 9007199254740992) = 1351079888211149 / 1125899906842624"
  by (subst fl_eval [where e = "- 52"]) (simp_all add: round_even_def Let_def power_int_minus)

lemma fl_c38: "fl (21617278211378383 / 18014398509481984) = 1351079888211149 / 1125899906842624"
  by (subst fl_eval [where e = "- 52"]) (simp_all add: round_even_def Let_def power_int_minus)

lemma fl_c39: "fl (6000000000000001 / 5000000000000000) = 1351079888211149 / 1125899906842624"
  by (subst fl_eval [where e = "- 52"]) (simp_all add: round_even_def Let_def power_int_minus)

lemma fl_c40: "fl (11709359031163289 / 9007199254740992) = 1463669878895411 / 1125899906842624"
  by (subst fl_eval [where e = "- 52"]) (simp_all add: round_even_def Let_def power_int_minus)

lemma fl_c41: "fl (25220157913274779 / 18014398509481984) = 6305039478318695 / 4503599627370496"
  by (subst fl_eval [where e = "- 52"]) (simp_all add: round_even_def Let_def power_int_minus)

lemma fl_c42: "fl (3 / 2) = 3 / 2"
  by (subst fl_eval [where e = "- 52"]) (simp_all add: round_even_def Let_def power_int_minus)

lemma fl_c43: "fl (2) = 2"
  by (subst fl_eval [where e = "- 51"]) (simp_all add: round_even_def Let_def power_int_minus)

lemma fl_c44: "fl (18014398509481985 / 9007199254740992) = 2"
  by (subst fl_eval [where e = "- 51"]) (simp_all add: round_even_def Let_def power_int_minus)

lemma fl_c45: "fl (25220157913274779 / 9007199254740992) = 6305039478318695 / 2251799813685248"
  by (subst fl_eval [where e = "- 51"]) (simp_all add: round_even_def Let_def power_int_minus)

lemma fl_c46: "fl (3) = 3"
  by (subst fl_eval [where e = "- 51"]) (simp_all add: round_even_def Let_def power_int_minus)

lemma fl_c47: "fl (4) = 4"
  by (subst fl_eval [where e = "- 50"]) (simp_all add: round_even_def Let_def power_int_minus)

lemma fl_c48: "fl (18014398509481985 / 4503599627370496) = 4"
  by (subst fl_eval [where e = "- 50"]) (simp_all add: round_even_def Let_def power_int_minus)

lemma fl_c49: "fl (6) = 6"
  by (subst fl_eval [where e = "- 50"]) (simp_all add: round_even_def Let_def power_int_minus)

lemma fl_c50: "fl (7) = 7"
  by (subst fl_eval [where e = "- 50"]) (simp_all add: round_even_def Let_def power_int_minus)

lemma fl_c51: "fl (352054827120853 / 35184372088832) = 352054827120853 / 35184372088832"
  by (subst fl_eval [where e = "- 49"]) (simp_all add: round_even_def Let_def power_int_minus)

lemma fl_c52: "fl (1001 / 100) = 5635129033747333 / 562949953421312"
  by (subst fl_eval [where e = "- 49"]) (simp_all add: round_even_def Let_def power_int_minus)

lemma fl_c53: "fl (20) = 20"
  by (subst fl_eval [where e = "- 48"]) (simp_all add: round_even_def Let_def power_int_minus)

lemma fl_c54: "fl (90071992547409925 / 4503599627370496) = 20"
  by (subst fl_eval [where e = "- 48"]) (simp_all add: round_even_def Let_def power_int_minus)

lemma fl_c55: "fl (47287796087390205 / 2251799813685248) = 21"
  by (subst fl_eval [where e = "- 48"]) (simp_all add: round_even_def Let_def power_int_minus)

lemma fl_c56: "fl (15762598695796735 / 562949953421312) = 28"
  by (subst fl_eval [where e = "- 48"]) (simp_all add: round_even_def Let_def power_int_minus)

lemma fl_c57: "fl (9513083929412747407649964197675 / 316912650057057350374175801344) = 1056164481362559 / 35184372088832"
  by (subst fl_eval [where e = "- 48"]) (simp_all add: round_even_def Let_def power_int_minus)

lemma fl_c58: "fl (1056164481362559 / 35184372088832) = 1056164481362559 / 35184372088832"
  by (subst fl_eval [where e = "- 48"]) (simp_all add: round_even_def Let_def power_int_minus)

lemma fl_c59: "fl (1501 / 50) = 8449878800853893 / 281474976710656"
  by (subst fl_eval [where e = "- 48"]) (simp_all add: round_even_def Let_def power_int_minus)

lemma fl_c60: "fl (352054827120853 / 8796093022208) = 352054827120853 / 8796093022208"
  by (subst fl_eval [where e = "- 47"]) (simp_all add: round_even_def Let_def power_int_minus)

lemma fl_c61: "fl (47287796087390205 / 1125899906842624) = 42"
  by (subst fl_eval [where e = "- 47"]) (simp_all add: round_even_def Let_def power_int_minus)

lemma fl_c62: "fl (110338190870577145 / 2251799813685248) = 49"
  by (subst fl_eval [where e = "- 47"]) (simp_all add: round_even_def Let_def power_int_minus)

lemma fl_c63: "fl (9513083929412747407649964197675 / 158456325028528675187087900672) = 1056164481362559 / 17592186044416"
  by (subst fl_eval [where e = "- 47"]) (simp_all add: round_even_def Let_def power_int_minus)

lemma fl_c64: "fl (1056164481362559 / 17592186044416) = 1056164481362559 / 17592186044416"
  by (subst fl_eval [where e = "- 47"]) (simp_all add: round_even_def Let_def power_int_minus)

lemma fl_c65: "fl (1501 / 25) = 8449878800853893 / 140737488355328"
  by (subst fl_eval [where e = "- 47"]) (simp_all add: round_even_def Let_def power_int_minus)

lemma fl_c66: "fl (90071992547409925 / 1125899906842624) = 80"
  by (subst fl_eval [where e = "- 46"]) (simp_all add: round_even_def Let_def power_int_minus)

lemma fl_c67: "fl (100) = 100"
  by (subst fl_eval [where e = "- 46"]) (simp_all add: round_even_def Let_def power_int_minus)

lemma fl_c68: "fl (5003 / 50) = 1760274135604265 / 17592186044416"
  by (subst fl_eval [where e = "- 46"]) (simp_all add: round_even_def Let_def power_int_minus)

lemma fl_c69: "fl (1000) = 1000"
  by (subst fl_eval [where e = "- 43"]) (simp_all add: round_even_def Let_def power_int_minus)

lemma fl_c70: "fl (8801370678021325 / 8796093022208) = 8801370678021325 / 8796093022208"
  by (subst fl_eval [where e = "- 43"]) (simp_all add: round_even_def Let_def power_int_minus)

lemma fl_c71: "fl (26404112034063975 / 8796093022208) = 3300514004257997 / 1099511627776"
  by (subst fl_eval [where e = "- 41"]) (simp_all add: round_even_def Let_def power_int_minus)

lemma fl_c72: "fl (26404112034063975 / 4398046511104) = 3300514004257997 / 549755813888"
  by (subst fl_eval [where e = "- 40"]) (simp_all add: round_even_def Let_def power_int_minus)

lemma fl_c73: "fl (10000) = 10000"
  by (subst fl_eval [where e = "- 39"]) (simp_all add: round_even_def Let_def power_int_minus)

lemma fl_c74: "fl (1000000) = 1000000"
  by (subst fl_eval [where e = "- 33"]) (simp_all add: round_even_def Let_def power_int_minus)

lemma fl_c75: "fl (746842855898342772969038870439 / 18014398509481984) = 5306637660128947 / 128"
  by (subst fl_eval [where e = "- 7"]) (simp_all add: round_even_def Let_def power_int_minus)

lemma fl_c76: "fl (1326659415032237 / 32) = 1326659415032237 / 32"
  by (subst fl_eval [where e = "- 7"]) (simp_all add: round_even_def Let_def power_int_minus)

lemma fl_c77: "fl (746842855898342772969038870439 / 4503599627370496) = 5306637660128947 / 32"
  by (subst fl_eval [where e = "- 5"]) (simp_all add: round_even_def Let_def power_int_minus)

lemma fl_c78: "fl (207290533598787) = 207290533598787"
  by (subst fl_eval [where e = "- 5"]) (simp_all add: round_even_def Let_def power_int_minus)

lemmas fl_consts =
  fl_c0 fl_c1 fl_c2 fl_c3 fl_c4 fl_c5 fl_c6 fl_c7
  fl_c8 fl_c9 fl_c10 fl_c11 fl_c12 fl_c13 fl_c14 fl_c15
  fl_c16 fl_c17 fl_c18 fl_c19 fl_c20 fl_c21 fl_c22 fl_c23
  fl_c24 fl_c25 fl_c26 fl_c27 fl_c28 fl_c29 fl_c30 fl_c31
  fl_c32 fl_c33 fl_c34 fl_c35 fl_c36 fl_c37 fl_c38 fl_c39
  fl_c40 fl_c41 fl_c42 fl_c43 fl_c44 fl_c45 fl_c46 fl_c47
  fl_c48 fl_c49 fl_c50 fl_c51 fl_c52 fl_c53 fl_c54 fl_c55
  fl_c56 fl_c57 fl_c58 fl_c59 fl_c60 fl_c61 fl_c62 fl_c63
  fl_c64 fl_c65 fl_c66 fl_c67 fl_c68 fl_c69 fl_c70 fl_c71
  fl_c72 fl_c73 fl_c74 fl_c75 fl_c76 fl_c77 fl_c78

lemmas fl_ops = fadd_def fsub_def fmul_def fdiv_def lit_def

lemma fadd_mono: "a \<le> a' \<Longrightarrow> b \<le> b' \<Longrightarrow> fadd a b \<le> fadd a' b'"
  unfolding fadd_def by (intro fl_mono_full) simp

lemma fmul_mono_left: "a \<le> a' \<Longrightarrow> 0 \<le> c \<Longrightarrow> fmul a c \<le> fmul a' c"
  unfolding fmul_def by (intro fl_mono_full mult_right_mono)

lemma fdiv_mono_left: "a \<le> a' \<Longrightarrow> 0 \<le> c \<Longrightarrow> fdiv a c \<le> fdiv a' c"
  unfolding fdiv_def by (intro fl_mono_full divide_right_mono)

lemma fadd_nonneg: "0 \<le> a \<Longrightarrow> 0 \<le> b \<Longrightarrow> 0 \<le> fadd a b"
  unfolding fadd_def by (intro fl_nonneg) simp

lemma fmul_nonneg: "0 \<le> a \<Longrightarrow> 0 \<le> b \<Longrightarrow> 0 \<le> fmul a b"
  unfolding fmul_def by (intro fl_nonneg) simp

lemma fdiv_nonneg: "0 \<le> a \<Longrightarrow> 0 \<le> b \<Longrightarrow> 0 \<le> fdiv a b"
  unfolding fdiv_def by (intro fl_nonneg) simp

lemma lit_nonneg: "0 \<le> c \<Longrightarrow> 0 \<le> lit c"
  unfolding lit_def by (rule fl_nonneg)

lemma lit_le_1: "c \<le> 1 \<Longrightarrow> lit c \<le> 1"
  unfolding lit_def using fl_mono_full [of c 1] by (simp add: fl_consts)

section \<open>Properties of the hype scorer\<close>

lemma created_at_undefined:
  "dom tokenInfo = set tokensColumns \<Longrightarrow> tokenInfo ''created_at'' = None"
proof -
  assume d: "dom tokenInfo = set tokensColumns"
  have "''created_at'' \<notin> set tokensColumns" by (simp add: tokensColumns_def)
  with d show ?thesis by (metis domIff)
qed

text \<open>
  C2.  The code does not do what the claim says.  The handler computes the age from
  \<^verbatim>\<open>tokenInfo.created_at\<close>; a row of the table \<^verbatim>\<open>tokens\<close> has no such property (the
  column is \<^verbatim>\<open>creation_date\<close>, which getPortfolioStrategy.js reads first), so the
  date is invalid, the age is \<^verbatim>\<open>NaN\<close>, and the hype score is \<^verbatim>\<open>NaN\<close> for every
  token: it is no integer in [0,100], and it is not 0 on all-zero input.
\<close>

theorem hypeScore_is_NaN:
  assumes "dom tokenInfo = set tokensColumns"
  shows "hypeScore now parse tokenInfo twitterData platformMentions liquidityData = None"
  using created_at_undefined [OF assms]
  by (simp add: hypeScore_def Let_def newDate_def ageInDays_def nan2_def)

theorem hypeScore_is_NaN_witness:
  "dom bonkRow = set tokensColumns \<and>
   hypeScore 1704067200000 (\<lambda>s. None) bonkRow
     \<lparr> count = 0, sentiment = 0, engagement = 0 \<rparr>
     \<lparr> reddit = \<lparr> count = 0, sentiment = 0 \<rparr>, telegram = \<lparr> count = 0, sentiment = 0 \<rparr> \<rparr>
     \<lparr> price = 0, volume24h = 0, liquidity = 0, marketCap = 0, priceChange24h = 0 \<rparr> = None"
proof -
  have d: "dom bonkRow = set tokensColumns"
    unfolding bonkRow_def tokensColumns_def by (simp only: dom_map_of_conv_image_fst) simp
  from hypeScore_is_NaN [OF d] d show ?thesis by blast
qed

section \<open>Properties of the per-token scores\<close>

text \<open>The logarithm of a number from 1 on is a number, and it is not negative.\<close>

lemma normalizedLog_range:
  assumes "0 \<le> x" "0 < d"
  shows "\<exists>v. normalizedLog (fadd x 1) d = Some v \<and> 0 \<le> v \<and> v \<le> 1"
proof -
  have "fl 1 \<le> fl (x + 1)" using assms(1) by (intro fl_mono_full) simp
  then have one: "1 \<le> fadd x 1" by (simp add: fadd_def fl_consts)
  then have "0 \<le> log 10 (fadd x 1)" by simp
  then have "0 \<le> fl (log 10 (fadd x 1))" by (rule fl_nonneg)
  then have "0 \<le> fdiv (fl (log 10 (fadd x 1))) d"
    using assms(2) by (intro fdiv_nonneg) simp_all
  then show ?thesis
    using one by (simp add: normalizedLog_def js_log10_def)
qed

lemma priceChangeFactor_range:
  "0 \<le> (if pc > 0 then fadd (min 1 (fdiv pc 100)) (lit 0.5)
          else max 0 (fsub (lit 0.5) (fdiv \<bar>pc\<bar> 100)))
   \<and> (if pc > 0 then fadd (min 1 (fdiv pc 100)) (lit 0.5)
          else max 0 (fsub (lit 0.5) (fdiv \<bar>pc\<bar> 100))) \<le> 3 / 2"
proof (cases "pc > 0")
  case True
  then have q: "0 \<le> fdiv pc 100" by (intro fdiv_nonneg) simp_all
  then have "0 \<le> fadd (min 1 (fdiv pc 100)) (lit 0.5)"
    by (intro fadd_nonneg lit_nonneg) simp_all
  moreover have "fadd (min 1 (fdiv pc 100)) (lit 0.5) \<le> fadd 1 (lit 0.5)"
    by (intro fadd_mono) simp_all
  moreover have "fadd 1 (lit 0.5) = 3 / 2" by (simp add: fl_ops fl_consts)
  ultimately show ?thesis using True by simp
next
  case False
  have q: "0 \<le> fdiv \<bar>pc\<bar> 100" by (intro fdiv_nonneg) simp_all
  have "fsub (lit 0.5) (fdiv \<bar>pc\<bar> 100) \<le> fl (lit 0.5)"
    unfolding fsub_def using q by (intro fl_mono_full) simp
  also have "fl (lit 0.5) = 1 / 2" by (simp add: fl_ops fl_consts)
  finally show ?thesis using False by simp
qed

lemma market_combine_le:
  assumes "p \<le> 3 / 2" "v \<le> 1" "l \<le> 1"
  shows "fadd (fadd (fmul p (lit 0.4)) (fmul v (lit 0.3))) (fmul l (lit 0.3))
           \<le> 1351079888211149 / 1125899906842624"
proof -
  have "fadd (fadd (fmul p (lit 0.4)) (fmul v (lit 0.3))) (fmul l (lit 0.3))
          \<le> fadd (fadd (fmul (3 / 2) (lit 0.4)) (fmul 1 (lit 0.3))) (fmul 1 (lit 0.3))"
    using assms by (intro fadd_mono fmul_mono_left lit_nonneg) simp_all
  also have "\<dots> = 1351079888211149 / 1125899906842624"
    by (simp add: fl_ops fl_consts)
  finally show ?thesis .
qed

lemma calculateMarketFactor_range:
  assumes "0 \<le> volume24h md" "0 \<le> liquidity md"
  shows "\<exists>m. calculateMarketFactor md = Some m \<and> 0 \<le> m
             \<and> m \<le> 1351079888211149 / 1125899906842624"
proof -
  define p where "p = (if priceChange24h md > 0
             then fadd (min 1 (fdiv (priceChange24h md) 100)) (lit 0.5)
             else max 0 (fsub (lit 0.5) (fdiv \<bar>priceChange24h md\<bar> 100)))"
  have p: "0 \<le> p" "p \<le> 3 / 2"
    using priceChangeFactor_range [of "priceChange24h md"] by (simp_all add: p_def)
  obtain v where v: "normalizedLog (fadd (volume24h md) 1) 6 = Some v" "0 \<le> v" "v \<le> 1"
    using normalizedLog_range [OF assms(1), of 6] by auto
  obtain l where l: "normalizedLog (fadd (liquidity md) 1) 6 = Some l" "0 \<le> l" "l \<le> 1"
    using normalizedLog_range [OF assms(2), of 6] by auto
  have eq: "calculateMarketFactor md
          = Some (fadd (fadd (fmul p (lit 0.4)) (fmul v (lit 0.3))) (fmul l (lit 0.3)))"
    unfolding calculateMarketFactor_def Let_def p_def [symmetric] v(1) l(1)
    by (simp add: nan2_def)
  have "0 \<le> fadd (fadd (fmul p (lit 0.4)) (fmul v (lit 0.3))) (fmul l (lit 0.3))"
    using p(1) v(2) l(2) by (intro fadd_nonneg fmul_nonneg lit_nonneg) simp_all
  with eq market_combine_le [OF p(2) v(3) l(3)] show ?thesis by simp
qed


lemma calculateNoveltyFactor_range:
  "0 \<le> calculateNoveltyFactor now parse c \<and> calculateNoveltyFactor now parse c \<le> 1"
  by (simp add: calculateNoveltyFactor_def lit_nonneg lit_le_1 split: option.splits)

lemma risk_combine_le:
  assumes "safety \<le> 100" "n \<le> 1" "m \<le> lit 1.2000000000000002"
  shows "calculateRiskAdjustedScore safety n m \<le> lit 1.05"
proof -
  have "fdiv safety 100 \<le> fdiv 100 100"
    using assms(1) by (intro fdiv_mono_left) simp_all
  then have ns: "fdiv safety 100 \<le> 1" by (simp add: fl_ops fl_consts)
  have "calculateRiskAdjustedScore safety n m
          \<le> fadd (fadd (fmul 1 (lit 0.5)) (fmul 1 (lit 0.25)))
                  (fmul (lit 1.2000000000000002) (lit 0.25))"
    unfolding calculateRiskAdjustedScore_def Let_def
    using ns assms(2,3) by (intro fadd_mono fmul_mono_left lit_nonneg) simp_all
  also have "\<dots> = lit 1.05" by (simp add: fl_ops fl_consts)
  finally show ?thesis .
qed

lemma calculateSocialScore_le_1:
  assumes "case socialSignals of None \<Rightarrow> True
           | Some sd \<Rightarrow> (case avg_sentiment sd of None \<Rightarrow> True | Some a \<Rightarrow> a \<le> 1)
                      \<and> (case total_engagement sd of None \<Rightarrow> True | Some e \<Rightarrow> 0 \<le> e)"
  shows "\<exists>s. calculateSocialScore socialSignals = Some s \<and> s \<le> 1"
proof (cases socialSignals)
  case None
  then show ?thesis by (simp add: calculateSocialScore_def lit_le_1)
next
  case (Some sd)
  show ?thesis
  proof (cases "total_mentions sd = None \<or> total_mentions sd = Some 0")
    case True
    then show ?thesis using Some by (auto simp add: calculateSocialScore_def lit_le_1)
  next
    case False
    then obtain n where n: "total_mentions sd = Some n" "n \<noteq> 0" by auto
    define eng where "eng = (case total_engagement sd of None \<Rightarrow> 0 | Some e \<Rightarrow> e)"
    have eng: "0 \<le> eng" using assms Some by (auto simp add: eng_def split: option.splits)
    define sf where "sf = (case avg_sentiment sd of
                           None \<Rightarrow> lit 0.5
                         | Some a \<Rightarrow> if a = 0 then lit 0.5 else fdiv (fadd a 1) 2)"
    have sf: "sf \<le> 1"
    proof (cases "avg_sentiment sd")
      case None
      then show ?thesis by (simp add: sf_def lit_le_1)
    next
      case (Some a)
      then have "a \<le> 1" using assms \<open>socialSignals = Some sd\<close> by simp
      then have "fadd a 1 \<le> fadd 1 1" by (intro fadd_mono) simp_all
      then have "fdiv (fadd a 1) 2 \<le> fdiv (fadd 1 1) 2" by (intro fdiv_mono_left) simp_all
      also have "\<dots> = 1" by (simp add: fl_ops fl_consts)
      finally show ?thesis using Some by (simp add: sf_def lit_le_1)
    qed
    obtain mf where mf: "normalizedLog (fadd (real n) 1) 3 = Some mf" "0 \<le> mf" "mf \<le> 1"
      using normalizedLog_range [of "real n" 3] by auto
    obtain ef where ef: "normalizedLog (fadd eng 1) 4 = Some ef" "0 \<le> ef" "ef \<le> 1"
      using normalizedLog_range [OF eng, of 4] by auto
    have eq: "calculateSocialScore socialSignals
            = Some (fadd (fadd (fmul mf (lit 0.4)) (fmul ef (lit 0.3))) (fmul sf (lit 0.3)))"
      using Some n mf(1) ef(1)
      by (simp add: calculateSocialScore_def Let_def eng_def [symmetric] sf_def [symmetric] nan2_def)
    have "fadd (fadd (fmul mf (lit 0.4)) (fmul ef (lit 0.3))) (fmul sf (lit 0.3))
            \<le> fadd (fadd (fmul 1 (lit 0.4)) (fmul 1 (lit 0.3))) (fmul 1 (lit 0.3))"
      using mf(3) ef(3) sf by (intro fadd_mono fmul_mono_left lit_nonneg) simp_all
    also have "\<dots> = 1" by (simp add: fl_ops fl_consts)
    finally show ?thesis using eq by simp
  qed
qed

lemma calculateMemeScore_le_1: "calculateMemeScore ms \<le> 1"
  by (simp add: calculateMemeScore_def Let_def lit_le_1)

lemma opportunity_combine_le:
  assumes "r \<le> lit 1.05" "s \<le> 1" "m \<le> 1"
  shows "fadd (fadd (fmul r (lit 0.4)) (fmul s (lit 0.3))) (fmul m (lit 0.3)) \<le> lit 1.02"
proof -
  have "fadd (fadd (fmul r (lit 0.4)) (fmul s (lit 0.3))) (fmul m (lit 0.3))
          \<le> fadd (fadd (fmul (lit 1.05) (lit 0.4)) (fmul 1 (lit 0.3))) (fmul 1 (lit 0.3))"
    using assms by (intro fadd_mono fmul_mono_left lit_nonneg) simp_all
  also have "\<dots> = lit 1.02" by (simp add: fl_ops fl_consts)
  finally show ?thesis .
qed

lemma scoreToken_bounds:
  assumes "0 \<le> volume24h md" "0 \<le> liquidity md" "safety \<le> 100"
    and "case socialSignals of None \<Rightarrow> True
         | Some sd \<Rightarrow> (case avg_sentiment sd of None \<Rightarrow> True | Some a \<Rightarrow> a \<le> 1)
                    \<and> (case total_engagement sd of None \<Rightarrow> True | Some e \<Rightarrow> 0 \<le> e)"
  shows "\<exists>m r opp. calculateMarketFactor md = Some m \<and> 0 \<le> m \<and> m \<le> lit 1.2000000000000002 \<and>
           riskAdjustedScore (scoreToken now parse tok safety md socialSignals memes) = Some r \<and>
           r \<le> lit 1.05 \<and>
           opportunity (scoreToken now parse tok safety md socialSignals memes) = Some opp \<and>
           opp \<le> lit 1.02"
proof -
  obtain m where m: "calculateMarketFactor md = Some m" "0 \<le> m"
      "m \<le> 1351079888211149 / 1125899906842624"
    using calculateMarketFactor_range [OF assms(1,2)] by auto
  have mm: "m \<le> lit 1.2000000000000002" using m(3) by (simp add: fl_ops fl_consts)
  define nov where
    "nov = calculateNoveltyFactor now parse (js_or (tok ''creation_date'') (tok ''created_at''))"
  have nov: "nov \<le> 1" using calculateNoveltyFactor_range by (simp add: nov_def)
  define r where "r = calculateRiskAdjustedScore safety nov m"
  have r: "r \<le> lit 1.05" unfolding r_def by (rule risk_combine_le [OF assms(3) nov mm])
  obtain s where s: "calculateSocialScore socialSignals = Some s" "s \<le> 1"
    using calculateSocialScore_le_1 [OF assms(4)] by auto
  define opp where "opp = fadd (fadd (fmul r (lit 0.4)) (fmul s (lit 0.3)))
                          (fmul (calculateMemeScore memes) (lit 0.3))"
  have opp: "opp \<le> lit 1.02"
    unfolding opp_def by (rule opportunity_combine_le [OF r s(2) calculateMemeScore_le_1])
  have "riskAdjustedScore (scoreToken now parse tok safety md socialSignals memes) = Some r"
    by (simp add: scoreToken_def Let_def m(1) r_def nov_def)
  moreover have "opportunity (scoreToken now parse tok safety md socialSignals memes) = Some opp"
    by (simp add: scoreToken_def Let_def m(1) s(1) nan2_def opp_def r_def nov_def)
  ultimately show ?thesis using m(1,2) mm r opp by blast
qed

lemma log_10_pow: "log 10 1000000 = 6" "log 10 1000 = 3" "log 10 10000 = 4"
proof -
  have e: "(1000000::real) = 10 ^ 6" "(1000::real) = 10 ^ 3" "(10000::real) = 10 ^ 4" by simp_all
  show "log 10 1000000 = 6" unfolding e by (subst log_pow_cancel) simp_all
  show "log 10 1000 = 3" unfolding e by (subst log_pow_cancel) simp_all
  show "log 10 10000 = 4" unfolding e by (subst log_pow_cancel) simp_all
qed

lemmas score_eval =
  scoreToken_def calculateMarketFactor_def calculateRiskAdjustedScore_def
  calculateSocialScore_def calculateMemeScore_def calculateNoveltyFactor_def
  normalizedLog_def js_log10_def nan2_def js_or_def newDate_def ageInDays_def Let_def
  fl_ops fl_consts log_10_pow

lemma calculateMarketFactor_max:
  "calculateMarketFactor \<lparr> price = 0, volume24h = 999999, liquidity = 999999, marketCap = 0,
       priceChange24h = 100 \<rparr> = Some (lit 1.2000000000000002)"
  by (simp add: score_eval)

lemma scoreToken_max:
  "riskAdjustedScore (scoreToken 0 (\<lambda>s. Some 0) [''creation_date'' \<mapsto> Text ''2024-01-01''] 100
       \<lparr> price = 0, volume24h = 999999, liquidity = 999999, marketCap = 0, priceChange24h = 100 \<rparr>
       (Some \<lparr> avg_sentiment = Some 1, total_mentions = Some 999, total_engagement = Some 9999 \<rparr>)
       [\<lparr> meme_name = ''doge'', correlation_score = Some 1 \<rparr>]) = Some (lit 1.05)"
  "opportunity (scoreToken 0 (\<lambda>s. Some 0) [''creation_date'' \<mapsto> Text ''2024-01-01''] 100
       \<lparr> price = 0, volume24h = 999999, liquidity = 999999, marketCap = 0, priceChange24h = 100 \<rparr>
       (Some \<lparr> avg_sentiment = Some 1, total_mentions = Some 999, total_engagement = Some 9999 \<rparr>)
       [\<lparr> meme_name = ''doge'', correlation_score = Some 1 \<rparr>]) = Some (lit 1.02)"
  by (simp_all add: score_eval)

lemma scoreToken_sentiment3:
  "opportunity (scoreToken 0 (\<lambda>s. Some 0) [''creation_date'' \<mapsto> Text ''2024-01-01''] 100
       \<lparr> price = 0, volume24h = 999999, liquidity = 999999, marketCap = 0, priceChange24h = 100 \<rparr>
       (Some \<lparr> avg_sentiment = Some 3, total_mentions = Some 999, total_engagement = Some 9999 \<rparr>)
       [\<lparr> meme_name = ''doge'', correlation_score = Some 1 \<rparr>])
     = Some (4998995586381251 / 4503599627370496)"
  by (simp add: score_eval)

lemma bounds_exceed_one:
  "1.2 < lit 1.2000000000000002" "lit 1.2 < lit 1.2000000000000002" "1 < lit 1.05" "1 < lit 1.02"
  "lit 1.02 < 4998995586381251 / 4503599627370496"
  by (simp_all add: fl_ops fl_consts)

lemma scoreToken_engagement:
  "opportunity (scoreToken 0 (\<lambda>s. Some 0) [''creation_date'' \<mapsto> Text ''2024-01-01''] 100
       \<lparr> price = 0, volume24h = 999999, liquidity = 999999, marketCap = 0, priceChange24h = 100 \<rparr>
       (Some \<lparr> avg_sentiment = Some 1, total_mentions = Some 999, total_engagement = Some (- 2) \<rparr>)
       [\<lparr> meme_name = ''doge'', correlation_score = Some 1 \<rparr>]) = None"
  by (simp add: score_eval fl_minus)

text \<open>
  C10, as stated, fails.  With a price change of 100 percent and a volume and a
  liquidity of 999999 the market factor is 1.2000000000000002, the binary64 number
  next above the one nearest to 1.2.  With an average sentiment of 3, which the claim
  does not exclude, the opportunity score is 1.11; with a total engagement of -2 it is
  no number.
\<close>

theorem market_factor_counterexample:
  "calculateMarketFactor \<lparr> price = 0, volume24h = 999999, liquidity = 999999, marketCap = 0,
       priceChange24h = 100 \<rparr> = Some (lit 1.2000000000000002) \<and>
   1.2 < lit 1.2000000000000002 \<and> lit 1.2 < lit 1.2000000000000002 \<and>
   opportunity (scoreToken 0 (\<lambda>s. Some 0) [''creation_date'' \<mapsto> Text ''2024-01-01''] 100
       \<lparr> price = 0, volume24h = 999999, liquidity = 999999, marketCap = 0, priceChange24h = 100 \<rparr>
       (Some \<lparr> avg_sentiment = Some 3, total_mentions = Some 999, total_engagement = Some 9999 \<rparr>)
       [\<lparr> meme_name = ''doge'', correlation_score = Some 1 \<rparr>]) = Some (lit 1.11) \<and>
   lit 1.02 < lit 1.11 \<and>
   opportunity (scoreToken 0 (\<lambda>s. Some 0) [''creation_date'' \<mapsto> Text ''2024-01-01''] 100
       \<lparr> price = 0, volume24h = 999999, liquidity = 999999, marketCap = 0, priceChange24h = 100 \<rparr>
       (Some \<lparr> avg_sentiment = Some 1, total_mentions = Some 999, total_engagement = Some (- 2) \<rparr>)
       [\<lparr> meme_name = ''doge'', correlation_score = Some 1 \<rparr>]) = None"
  using calculateMarketFactor_max scoreToken_sentiment3 bounds_exceed_one scoreToken_engagement
  by (simp add: fl_ops fl_consts)

text \<open>
  C10, amended.  For non-negative volume and liquidity the market factor is a number
  between 0 and 1.2000000000000002.  For a safety score in [0,100], an average
  sentiment of at most 1 and a non-negative total engagement, the risk-adjusted score
  is at most 1.05 and the opportunity score at most 1.02 (the binary64 numbers nearest
  to these).  None of the three is confined to [0,1]: a price change of 100 percent
  with volume and liquidity of 999999 gives the market factor 1.2000000000000002, and
  with it both bounds are reached.
\<close>

theorem market_factor_bounds:
  assumes "0 \<le> volume24h md" "0 \<le> liquidity md" "0 \<le> safety" "safety \<le> 100"
    and "case socialSignals of None \<Rightarrow> True
         | Some sd \<Rightarrow> (case avg_sentiment sd of None \<Rightarrow> True | Some a \<Rightarrow> a \<le> 1)
                    \<and> (case total_engagement sd of None \<Rightarrow> True | Some e \<Rightarrow> 0 \<le> e)"
  shows "(\<exists>m r opp.
            calculateMarketFactor md = Some m \<and> 0 \<le> m \<and> m \<le> lit 1.2000000000000002 \<and>
            riskAdjustedScore (scoreToken now parse tok safety md socialSignals memes) = Some r \<and>
            r \<le> lit 1.05 \<and>
            opportunity (scoreToken now parse tok safety md socialSignals memes) = Some opp \<and>
            opp \<le> lit 1.02) \<and>
         calculateMarketFactor \<lparr> price = 0, volume24h = 999999, liquidity = 999999,
            marketCap = 0, priceChange24h = 100 \<rparr> = Some (lit 1.2000000000000002) \<and>
         riskAdjustedScore (scoreToken 0 (\<lambda>s. Some 0) [''creation_date'' \<mapsto> Text ''2024-01-01''] 100
            \<lparr> price = 0, volume24h = 999999, liquidity = 999999, marketCap = 0,
              priceChange24h = 100 \<rparr>
            (Some \<lparr> avg_sentiment = Some 1, total_mentions = Some 999,
                    total_engagement = Some 9999 \<rparr>)
            [\<lparr> meme_name = ''doge'', correlation_score = Some 1 \<rparr>]) = Some (lit 1.05) \<and>
         opportunity (scoreToken 0 (\<lambda>s. Some 0) [''creation_date'' \<mapsto> Text ''2024-01-01''] 100
            \<lparr> price = 0, volume24h = 999999, liquidity = 999999, marketCap = 0,
              priceChange24h = 100 \<rparr>
            (Some \<lparr> avg_sentiment = Some 1, total_mentions = Some 999,
                    total_engagement = Some 9999 \<rparr>)
            [\<lparr> meme_name = ''doge'', correlation_score = Some 1 \<rparr>]) = Some (lit 1.02) \<and>
         1 < lit 1.2000000000000002 \<and> 1 < lit 1.05 \<and> 1 < lit 1.02"
  using scoreToken_bounds [OF assms(1,2,4,5), of now parse tok memes]
    calculateMarketFactor_max scoreToken_max bounds_exceed_one
  by (simp add: fl_ops fl_consts)

theorem market_factor_bounds_witness:
  "\<exists>m r opp.
     calculateMarketFactor \<lparr> price = 1, volume24h = 9, liquidity = 99, marketCap = 0,
           priceChange24h = 50 \<rparr> = Some m \<and> 0 \<le> m \<and> m \<le> lit 1.2000000000000002 \<and>
     riskAdjustedScore (scoreToken 0 (\<lambda>s. Some 0) bonkRow 80
         \<lparr> price = 1, volume24h = 9, liquidity = 99, marketCap = 0, priceChange24h = 50 \<rparr>
         (Some \<lparr> avg_sentiment = Some 0.5, total_mentions = Some 9, total_engagement = Some 99 \<rparr>)
         []) = Some r \<and> r \<le> lit 1.05 \<and>
     opportunity (scoreToken 0 (\<lambda>s. Some 0) bonkRow 80
         \<lparr> price = 1, volume24h = 9, liquidity = 99, marketCap = 0, priceChange24h = 50 \<rparr>
         (Some \<lparr> avg_sentiment = Some 0.5, total_mentions = Some 9, total_engagement = Some 99 \<rparr>)
         []) = Some opp \<and> opp \<le> lit 1.02"
proof -
  let ?md = "\<lparr> price = 1, volume24h = 9, liquidity = 99, marketCap = 0, priceChange24h = 50 \<rparr>"
  let ?ss = "Some \<lparr> avg_sentiment = Some (0.5::real), total_mentions = Some (9::nat),
                    total_engagement = Some (99::real) \<rparr>"
  have h: "0 \<le> volume24h ?md" "0 \<le> liquidity ?md" "(0::real) \<le> 80" "(80::real) \<le> 100"
    "case ?ss of None \<Rightarrow> True
         | Some sd \<Rightarrow> (case avg_sentiment sd of None \<Rightarrow> True | Some a \<Rightarrow> a \<le> 1)
                    \<and> (case total_engagement sd of None \<Rightarrow> True | Some e \<Rightarrow> 0 \<le> e)"
    by simp_all
  from market_factor_bounds [OF h, of 0 "\<lambda>s. Some 0" bonkRow "[]"]
  show ?thesis by blast
qed

section \<open>Properties of the portfolio allocation\<close>

lemma fl_error_num:
  "\<bar>x\<bar> \<le> 1073741824 \<Longrightarrow> \<bar>fl x - x\<bar> \<le> 1 / 8388608"
  "\<bar>x\<bar> \<le> 2147483648 \<Longrightarrow> \<bar>fl x - x\<bar> \<le> 1 / 4194304"
  "\<bar>x\<bar> \<le> 137438953472 \<Longrightarrow> \<bar>fl x - x\<bar> \<le> 1 / 65536"
  "\<bar>x\<bar> \<le> 1099511627776 \<Longrightarrow> \<bar>fl x - x\<bar> \<le> 1 / 8192"
  "\<bar>x\<bar> \<le> 1 \<Longrightarrow> \<bar>fl x - x\<bar> \<le> 1 / 9007199254740992"
  using fl_error [of x 30] fl_error [of x 31] fl_error [of x 37] fl_error [of x 40]
    fl_error [of x 0]
  by (simp_all add: power_int_minus)

lemma fl_abs_le_num:
  "\<bar>x\<bar> \<le> 1073741824 \<Longrightarrow> \<bar>fl x\<bar> \<le> 1073741824"
  "\<bar>x\<bar> \<le> 137438953472 \<Longrightarrow> \<bar>fl x\<bar> \<le> 137438953472"
  "\<bar>x\<bar> \<le> 1099511627776 \<Longrightarrow> \<bar>fl x\<bar> \<le> 1099511627776"
  "\<bar>x\<bar> \<le> 1 / 1024 \<Longrightarrow> \<bar>fl x\<bar> \<le> 1 / 1024"
  "\<bar>x\<bar> \<le> 1 / 8 \<Longrightarrow> \<bar>fl x\<bar> \<le> 1 / 8"
  using fl_abs_le [of x 30] fl_abs_le [of x 37] fl_abs_le [of x 40] fl_abs_le [of x "- 10"]
    fl_abs_le [of x "- 3"]
  by (simp_all add: power_int_minus)

text \<open>The weight of a position lies between 1/2 and 1.\<close>

lemma weight_range:
  assumes "i < n"
  shows "1 / 2 \<le> fsub 1 (fmul (fdiv (real i) (real n)) (lit 0.5))
         \<and> fsub 1 (fmul (fdiv (real i) (real n)) (lit 0.5)) \<le> 1"
proof -
  define q where "q = fdiv (real i) (real n)"
  define h where "h = fmul q (lit 0.5)"
  have "real i / real n \<le> 1" using assms by simp
  then have "fl (real i / real n) \<le> fl 1" by (rule fl_mono_full)
  then have q: "0 \<le> q" "q \<le> 1"
    by (simp_all add: q_def fdiv_nonneg) (simp add: fdiv_def fl_consts)
  have "fmul q (lit 0.5) \<le> fmul 1 (lit 0.5)"
    using q(2) by (intro fmul_mono_left lit_nonneg) simp_all
  then have h: "0 \<le> h" "h \<le> 1 / 2"
    using q(1) by (simp_all add: h_def fmul_nonneg lit_nonneg) (simp add: fl_ops fl_consts)
  have "fl (1 / 2) \<le> fl (1 - h)" "fl (1 - h) \<le> fl 1"
    using h by (auto intro!: fl_mono_full)
  then show ?thesis
    unfolding q_def [symmetric] h_def [symmetric] fsub_def by (simp add: fl_consts)
qed

lemma bucketAllocations_member:
  assumes "a \<in> set (bucketAllocations A c ts)"
  obtains i where "i < length ts"
    "amount a = fdiv (real_of_int (js_round (fmul (fdiv (fmul A
        (fsub 1 (fmul (fdiv (real i) (real (length ts))) (lit 0.5)))) (real (length ts))) 100))) 100"
proof -
  from assms obtain i t where it: "(i, t) \<in> set (enumerate 0 ts)"
    and a: "amount a = fdiv (real_of_int (js_round (fmul (fdiv (fmul A
        (fsub 1 (fmul (fdiv (real i) (real (length ts))) (lit 0.5)))) (real (length ts))) 100))) 100"
    by (auto simp add: bucketAllocations_def Let_def)
  from it have "i < length ts" by (auto simp add: in_set_enumerate_eq)
  then show ?thesis using a by (rule that)
qed

lemma js_round_le: "real_of_int (js_round x) \<le> x + 1 / 2"
  unfolding js_round_def by (rule of_int_floor_le)

lemma js_round_ge: "x - 1 / 2 < real_of_int (js_round x)"
  unfolding js_round_def by linarith

text \<open>One amount of a bucket with a non-negative allocation of at most \<open>2^30\<close>.\<close>

lemma bucket_amount_le:
  assumes "0 \<le> A" "A \<le> 1073741824" "a \<in> set (bucketAllocations A c ts)"
  shows "amount a \<le> A / real (length ts) + 1 / 200 + 7 / 10000000"
proof -
  from assms(3) obtain i where i: "i < length ts"
    and a: "amount a = fdiv (real_of_int (js_round (fmul (fdiv (fmul A
        (fsub 1 (fmul (fdiv (real i) (real (length ts))) (lit 0.5)))) (real (length ts))) 100))) 100"
    by (rule bucketAllocations_member)
  define n where "n = real (length ts)"
  define w where "w = fsub 1 (fmul (fdiv (real i) (real (length ts))) (lit 0.5))"
  define a1 where "a1 = fmul A w"
  define a2 where "a2 = fdiv a1 n"
  define a3 where "a3 = fmul a2 100"
  define k where "k = real_of_int (js_round a3)"
  have am: "amount a = fl (k / 100)"
    by (simp add: a k_def a3_def a2_def a1_def w_def n_def fdiv_def)
  have n: "1 \<le> n" using i by (simp add: n_def)
  have w: "1 / 2 \<le> w" "w \<le> 1" using weight_range [OF i] by (simp_all add: w_def)
  have Aw: "0 \<le> A * w" "A * w \<le> A"
    using assms(1) w by (simp_all add: mult_left_le)
  have a1: "0 \<le> a1" "a1 \<le> A + 1 / 8388608" "a1 \<le> 1073741824"
  proof -
    have r: "\<bar>A * w\<bar> \<le> 1073741824" using Aw assms(2) by simp
    show "0 \<le> a1" unfolding a1_def fmul_def using Aw(1) by (rule fl_nonneg)
    show "a1 \<le> A + 1 / 8388608"
      using fl_error_num(1) [OF r] Aw(2) unfolding a1_def fmul_def by linarith
    show "a1 \<le> 1073741824"
      using fl_abs_le_num(1) [OF r] unfolding a1_def fmul_def by linarith
  qed
  have d: "0 \<le> a1 / n" "a1 / n \<le> a1"
  proof -
    show "0 \<le> a1 / n" using a1(1) n by simp
    have "a1 * 1 \<le> a1 * n" using a1(1) n by (intro mult_left_mono) simp_all
    then show "a1 / n \<le> a1" using n by (simp add: divide_le_eq)
  qed
  have d': "a1 / n \<le> A / n + 1 / 8388608"
  proof -
    have "a1 / n \<le> (A + 1 / 8388608) / n"
      using a1(2) n by (intro divide_right_mono) simp_all
    also have "\<dots> = A / n + (1 / 8388608) / n" by (simp add: add_divide_distrib)
    also have "\<dots> \<le> A / n + 1 / 8388608"
      using n by (simp add: divide_le_eq)
    finally show ?thesis .
  qed
  have a2: "0 \<le> a2" "a2 \<le> A / n + 1 / 4194304" "a2 \<le> 1073741824"
  proof -
    have r: "\<bar>a1 / n\<bar> \<le> 1073741824" using d a1(3) by simp
    show "0 \<le> a2" unfolding a2_def fdiv_def using d(1) by (rule fl_nonneg)
    show "a2 \<le> A / n + 1 / 4194304"
      using fl_error_num(1) [OF r] d' unfolding a2_def fdiv_def by linarith
    show "a2 \<le> 1073741824"
      using fl_abs_le_num(1) [OF r] unfolding a2_def fdiv_def by linarith
  qed
  have a3: "0 \<le> a3" "a3 \<le> a2 * 100 + 1 / 65536" "a3 \<le> 137438953472"
  proof -
    have r: "\<bar>a2 * 100\<bar> \<le> 137438953472" using a2(1,3) by simp
    show "0 \<le> a3" unfolding a3_def fmul_def using a2(1) by (intro fl_nonneg) simp
    show "a3 \<le> a2 * 100 + 1 / 65536"
      using fl_error_num(3) [OF r] unfolding a3_def fmul_def by linarith
    show "a3 \<le> 137438953472"
      using fl_abs_le_num(2) [OF r] unfolding a3_def fmul_def by linarith
  qed
  have k: "0 \<le> k" "k \<le> a3 + 1 / 2"
  proof -
    have "- 1 < k" using js_round_ge [of a3] a3(1) by (simp add: k_def)
    then have "- 1 < js_round a3" by (simp add: k_def)
    then have "0 \<le> js_round a3" by simp
    then show "0 \<le> k" by (simp add: k_def)
    show "k \<le> a3 + 1 / 2" unfolding k_def by (rule js_round_le)
  qed
  have r: "\<bar>k / 100\<bar> \<le> 2147483648" using k a3(3) by simp
  have "amount a \<le> k / 100 + 1 / 4194304"
    using fl_error_num(2) [OF r] unfolding am by linarith
  also have "\<dots> \<le> (a3 + 1 / 2) / 100 + 1 / 4194304"
    using k(2) by (simp add: divide_right_mono)
  also have "\<dots> \<le> (a2 * 100 + 1 / 65536 + 1 / 2) / 100 + 1 / 4194304"
    using a3(2) by (simp add: divide_right_mono)
  also have "\<dots> = a2 + 1 / 6553600 + 1 / 200 + 1 / 4194304"
    by (simp add: add_divide_distrib)
  also have "\<dots> \<le> A / n + 1 / 4194304 + 1 / 6553600 + 1 / 200 + 1 / 4194304"
    using a2(2) by simp
  also have "\<dots> \<le> A / n + 1 / 200 + 7 / 10000000" by simp
  finally show ?thesis by (simp add: n_def)
qed

text \<open>With an allocation that is not positive no amount is positive.\<close>

lemma bucket_amount_nonpos:
  assumes "A \<le> 0" "a \<in> set (bucketAllocations A c ts)"
  shows "amount a \<le> 0"
proof -
  from assms(2) obtain i where i: "i < length ts"
    and a: "amount a = fdiv (real_of_int (js_round (fmul (fdiv (fmul A
        (fsub 1 (fmul (fdiv (real i) (real (length ts))) (lit 0.5)))) (real (length ts))) 100))) 100"
    by (rule bucketAllocations_member)
  define w where "w = fsub 1 (fmul (fdiv (real i) (real (length ts))) (lit 0.5))"
  have w: "1 / 2 \<le> w" using weight_range [OF i] by (simp add: w_def)
  have "A * w \<le> 0" using assms(1) w by (simp add: mult_le_0_iff)
  then have "fmul A w \<le> 0" unfolding fmul_def by (rule fl_nonpos)
  then have "fmul A w / real (length ts) \<le> 0" by (simp add: divide_le_0_iff)
  then have "fdiv (fmul A w) (real (length ts)) \<le> 0" unfolding fdiv_def by (rule fl_nonpos)
  then have "fdiv (fmul A w) (real (length ts)) * 100 \<le> 0" by (simp add: mult_le_0_iff)
  then have "fmul (fdiv (fmul A w) (real (length ts))) 100 \<le> 0"
    unfolding fmul_def by (rule fl_nonpos)
  then have "js_round (fmul (fdiv (fmul A w) (real (length ts))) 100) \<le> 0"
    unfolding js_round_def by (simp add: floor_le_iff)
  then have "real_of_int (js_round (fmul (fdiv (fmul A w) (real (length ts))) 100)) / 100 \<le> 0"
    by (simp add: divide_le_0_iff)
  then show ?thesis unfolding a w_def [symmetric] fdiv_def [of _ 100] by (rule fl_nonpos)
qed

lemma sum_list_le_length:
  "(\<And>x. x \<in> set xs \<Longrightarrow> g x \<le> (c::real)) \<Longrightarrow> sum_list (map g xs) \<le> real (length xs) * c"
  by (induction xs) (auto simp add: algebra_simps add_mono)

lemma length_bucketAllocations: "length (bucketAllocations A c ts) = length ts"
  by (simp add: bucketAllocations_def)

lemma bucketAllocations_category:
  "a \<in> set (bucketAllocations A c ts) \<Longrightarrow> category a = c"
  by (auto simp add: bucketAllocations_def Let_def)

lemma bucketAllocations_sum:
  assumes "A \<le> 1073741824"
  shows "sum_list (map amount (bucketAllocations A c ts))
           \<le> max A 0 + real (length ts) * (1 / 200 + 7 / 10000000)"
proof (cases "0 \<le> A")
  case True
  show ?thesis
  proof (cases "ts = []")
    case True
    then show ?thesis by (simp add: bucketAllocations_def)
  next
    case False
    then have n: "0 < real (length ts)" by simp
    have "sum_list (map amount (bucketAllocations A c ts))
            \<le> real (length (bucketAllocations A c ts))
               * (A / real (length ts) + 1 / 200 + 7 / 10000000)"
      by (rule sum_list_le_length) (rule bucket_amount_le [OF \<open>0 \<le> A\<close> assms])
    also have "\<dots> = A + real (length ts) * (1 / 200 + 7 / 10000000)"
      using n by (simp add: length_bucketAllocations field_simps)
    finally show ?thesis using True by simp
  qed
next
  case False
  then have A: "A \<le> 0" by simp
  have "sum_list (map amount (bucketAllocations A c ts))
          \<le> real (length (bucketAllocations A c ts)) * 0"
    by (rule sum_list_le_length) (rule bucket_amount_nonpos [OF A])
  then have "sum_list (map amount (bucketAllocations A c ts)) \<le> 0" by simp
  moreover have "0 \<le> max A 0 + real (length ts) * (1 / 200 + 7 / 10000000)" by simp
  ultimately show ?thesis by linarith
qed


lemma allocationParameters_ratios:
  "0 \<le> estabRatio (allocationParameters rt) \<and> estabRatio (allocationParameters rt) \<le> 1 \<and>
   0 \<le> newRatio (allocationParameters rt) \<and> newRatio (allocationParameters rt) \<le> 1 \<and>
   estabRatio (allocationParameters rt) + newRatio (allocationParameters rt)
     \<le> 1 + 1 / 18014398509481984"
  by (simp add: allocationParameters_def fl_ops fl_consts)

lemma generateAllocations_length:
  "length (generateAllocations pts rt I ex) =
     length (filteredEstablished pts rt ex) + length (filteredNew pts rt ex)
     + length (filteredSpeculative pts rt ex)"
  by (simp add: generateAllocations_def Let_def length_bucketAllocations)

lemma bucketSizes:
  "bucketSize (maxTokens (allocationParameters rt)) 0.4 \<le> 4 \<and>
   bucketSize (maxTokens (allocationParameters rt)) 0.2 \<le> 2"
  by (simp add: allocationParameters_def bucketSize_def fl_ops fl_consts)

lemma generateAllocations_at_most_ten:
  "length (generateAllocations pts rt I ex) \<le> 10"
proof -
  have "length (filteredEstablished pts rt ex) \<le> 4"
    unfolding filteredEstablished_def Let_def
    using bucketSizes [of rt]
    by (intro order_trans [OF length_filter_le]) (simp add: min_le_iff_disj)
  moreover have "length (filteredNew pts rt ex) \<le> 4"
    unfolding filteredNew_def Let_def
    using bucketSizes [of rt]
    by (intro order_trans [OF length_filter_le]) (simp add: min_le_iff_disj)
  moreover have "length (filteredSpeculative pts rt ex) \<le> 2"
    unfolding filteredSpeculative_def Let_def
    using bucketSizes [of rt]
    by (intro order_trans [OF length_filter_le]) (simp add: min_le_iff_disj)
  ultimately show ?thesis by (simp add: generateAllocations_length)
qed

lemma recommendations_amounts:
  "map recAmount (recommendations (generatePortfolioAllocation pts rt I ex))
     = map amount (generateAllocations pts rt I ex)"
  by (simp add: generatePortfolioAllocation_def Let_def comp_def)

text \<open>
  The three allocations for an investment between 0 and \<open>10^9\<close>: each is at most
  \<open>2^30\<close>, and together the positive ones exceed the investment by less than a
  millionth.
\<close>

lemma allocations_total:
  assumes "0 \<le> I" "I \<le> 1000000000"
    and "0 \<le> e" "e \<le> 1" "0 \<le> n" "n \<le> 1" "e + n \<le> 1 + 1 / 18014398509481984"
  shows "fmul I e \<le> 1073741824" "fmul I n \<le> 1073741824"
    "fsub (fsub I (fmul I e)) (fmul I n) \<le> 1073741824"
    "fmul I e + fmul I n + max (fsub (fsub I (fmul I e)) (fmul I n)) 0 \<le> I + 1 / 2000000"
proof -
  define Ae where "Ae = fmul I e"
  define An where "An = fmul I n"
  define t where "t = fsub I Ae"
  define r where "r = fsub t An"
  have Ie: "0 \<le> I * e" "I * e \<le> I" using assms(1,3,4) by (simp_all add: mult_left_le)
  have In: "0 \<le> I * n" "I * n \<le> I" using assms(1,5,6) by (simp_all add: mult_left_le)
  have re: "\<bar>I * e\<bar> \<le> 1073741824" using Ie assms(2) by simp
  have rn: "\<bar>I * n\<bar> \<le> 1073741824" using In assms(2) by simp
  have Ae: "0 \<le> Ae" "\<bar>Ae - I * e\<bar> \<le> 1 / 8388608" "Ae \<le> 1073741824"
    using fl_nonneg [OF Ie(1)] fl_error_num(1) [OF re] fl_abs_le_num(1) [OF re]
    by (simp_all add: Ae_def fmul_def abs_le_iff)
  have An: "0 \<le> An" "\<bar>An - I * n\<bar> \<le> 1 / 8388608" "An \<le> 1073741824"
    using fl_nonneg [OF In(1)] fl_error_num(1) [OF rn] fl_abs_le_num(1) [OF rn]
    by (simp_all add: An_def fmul_def abs_le_iff)
  have rt: "\<bar>I - Ae\<bar> \<le> 1073741824" using Ae Ie assms(1,2) by linarith
  have t: "\<bar>t - (I - Ae)\<bar> \<le> 1 / 8388608" "\<bar>t\<bar> \<le> 1073741824"
    using fl_error_num(1) [OF rt] fl_abs_le_num(1) [OF rt] by (simp_all add: t_def fsub_def)
  have rr: "\<bar>t - An\<bar> \<le> 2147483648" using t(2) An(1,3) by linarith
  have r: "\<bar>r - (t - An)\<bar> \<le> 1 / 4194304"
    using fl_error_num(2) [OF rr] by (simp add: r_def fsub_def)
  have "(e + n) * I \<le> (1 + 1 / 18014398509481984) * I"
    using assms(7,1) by (rule mult_right_mono)
  then have en: "I * e + I * n \<le> I + I / 18014398509481984"
    by (simp add: algebra_simps)
  have small: "I / 18014398509481984 \<le> 1 / 18014398" using assms(2) by simp
  show "fmul I e \<le> 1073741824" using Ae(3) by (simp add: Ae_def)
  show "fmul I n \<le> 1073741824" using An(3) by (simp add: An_def)
  have "r \<le> 1073741824" using r t(1) Ae An Ie In assms(1,2) by linarith
  then show "fsub (fsub I (fmul I e)) (fmul I n) \<le> 1073741824"
    by (simp add: r_def t_def Ae_def An_def)
  have "Ae + An + max r 0 \<le> I + 1 / 2000000"
  proof (cases "0 \<le> r")
    case True
    then have "max r 0 = r" by simp
    then show ?thesis using r t(1) by linarith
  next
    case False
    then have "max r 0 = 0" by simp
    then show ?thesis using Ae(2) An(2) en small by linarith
  qed
  then show "fmul I e + fmul I n + max (fsub (fsub I (fmul I e)) (fmul I n)) 0 \<le> I + 1 / 2000000"
    by (simp add: r_def t_def Ae_def An_def)
qed

lemma generateAllocations_sum:
  assumes "0 \<le> I" "I \<le> 1000000000"
  shows "sum_list (map amount (generateAllocations pts rt I ex))
           \<le> I + real (length (generateAllocations pts rt I ex)) / 200 + 1 / 100000"
proof -
  define e where "e = estabRatio (allocationParameters rt)"
  define n where "n = newRatio (allocationParameters rt)"
  define le where "le = real (length (filteredEstablished pts rt ex))"
  define ln where "ln = real (length (filteredNew pts rt ex))"
  define ls where "ls = real (length (filteredSpeculative pts rt ex))"
  define r where "r = fsub (fsub I (fmul I e)) (fmul I n)"
  have p: "0 \<le> e" "e \<le> 1" "0 \<le> n" "n \<le> 1" "e + n \<le> 1 + 1 / 18014398509481984"
    using allocationParameters_ratios [of rt] by (simp_all add: e_def n_def)
  note t = allocations_total [OF assms p]
  have N: "le + ln + ls = real (length (generateAllocations pts rt I ex))" "le + ln + ls \<le> 10"
    using generateAllocations_at_most_ten [of pts rt I ex]
    by (simp_all add: generateAllocations_length le_def ln_def ls_def)
  have "sum_list (map amount (generateAllocations pts rt I ex)) =
          sum_list (map amount (bucketAllocations (fmul I e) Established
                                  (filteredEstablished pts rt ex)))
        + sum_list (map amount (bucketAllocations (fmul I n) New (filteredNew pts rt ex)))
        + sum_list (map amount (bucketAllocations r Speculative
                                  (filteredSpeculative pts rt ex)))"
    by (simp add: generateAllocations_def Let_def e_def n_def r_def)
  also have "\<dots> \<le> (max (fmul I e) 0 + le * (1 / 200 + 7 / 10000000))
                  + (max (fmul I n) 0 + ln * (1 / 200 + 7 / 10000000))
                  + (max r 0 + ls * (1 / 200 + 7 / 10000000))"
    unfolding le_def ln_def ls_def
    using t(1,2,3) by (intro add_mono bucketAllocations_sum) (simp_all add: r_def)
  also have "\<dots> = (fmul I e + fmul I n + max r 0) + (le + ln + ls) * (1 / 200 + 7 / 10000000)"
  proof -
    have "max (fmul I e) 0 = fmul I e" "max (fmul I n) 0 = fmul I n"
      using p assms(1) by (simp_all add: fmul_nonneg max_absorb1)
    then show ?thesis by (simp only: distrib_right)
  qed
  also have "\<dots> \<le> (I + 1 / 2000000) + (le + ln + ls) * (1 / 200 + 7 / 10000000)"
    using t(4) by (simp add: r_def)
  also have "\<dots> \<le> I + (le + ln + ls) / 200 + 1 / 100000"
  proof -
    define S where "S = le + ln + ls"
    have "S * (1 / 200 + 7 / 10000000) = S * (1 / 200) + S * (7 / 10000000)"
      by (rule distrib_left)
    moreover have "S * (1 / 200) = S / 200" by simp
    moreover have "S * (7 / 10000000) \<le> 10 * (7 / 10000000)"
      using N(2) unfolding S_def [symmetric] by (intro mult_right_mono) simp_all
    ultimately have "I + 1 / 2000000 + S * (1 / 200 + 7 / 10000000)
                       \<le> I + S / 200 + 1 / 100000"
      by linarith
    then show ?thesis by (simp only: S_def)
  qed
  finally show ?thesis by (simp add: N(1))
qed

text \<open>The conservative preset: what is left for the speculative bucket is next to nothing.\<close>

lemma conservative_remaining_small:
  assumes "0 \<le> I" "I \<le> 1000000000000"
  shows "\<bar>fsub (fsub I (fmul I (lit 0.8))) (fmul I (lit 0.2))\<bar> \<le> 1 / 1024"
proof -
  define c8 where "c8 = lit 0.8"
  define c2 where "c2 = lit 0.2"
  define Ae where "Ae = fmul I c8"
  define An where "An = fmul I c2"
  define t where "t = fsub I Ae"
  have c: "c8 = 3602879701896397 / 4503599627370496" "c2 = 3602879701896397 / 18014398509481984"
    by (simp_all add: c8_def c2_def fl_ops fl_consts)
  have re: "\<bar>I * c8\<bar> \<le> 1099511627776" using assms by (simp add: c)
  have rn: "\<bar>I * c2\<bar> \<le> 1099511627776" using assms by (simp add: c)
  have Ae: "\<bar>Ae - I * c8\<bar> \<le> 1 / 8192" "\<bar>Ae\<bar> \<le> 1099511627776"
    using fl_error_num(4) [OF re] fl_abs_le_num(3) [OF re] by (simp_all add: Ae_def fmul_def)
  have An: "\<bar>An - I * c2\<bar> \<le> 1 / 8192"
    using fl_error_num(4) [OF rn] by (simp add: An_def fmul_def)
  have "0 \<le> I * c8" "I * c8 \<le> I" using assms(1) by (simp_all add: c)
  then have rt: "\<bar>I - Ae\<bar> \<le> 1099511627776" using Ae(1) assms by linarith
  have t: "\<bar>t - (I - Ae)\<bar> \<le> 1 / 8192"
    using fl_error_num(4) [OF rt] by (simp add: t_def fsub_def)
  have d: "I - I * c8 - I * c2 = - (I / 18014398509481984)"
    by (simp add: c algebra_simps)
  have small: "0 \<le> I / 18014398509481984" "I / 18014398509481984 \<le> 1 / 18014" using assms by simp_all
  have x: "\<bar>t - An\<bar> \<le> 3 / 8192 + 1 / 18014"
    using t Ae(1) An d small by linarith
  then have "\<bar>t - An\<bar> \<le> 1 / 1024" by simp
  then have "\<bar>fl (t - An)\<bar> \<le> 1 / 1024" by (rule fl_abs_le_num(4))
  then show ?thesis by (simp add: fsub_def t_def Ae_def An_def c8_def c2_def)
qed

lemma bucket_amount_zero:
  assumes "\<bar>A\<bar> \<le> 1 / 1024" "a \<in> set (bucketAllocations A c ts)"
  shows "amount a = 0"
proof -
  from assms(2) obtain i where i: "i < length ts"
    and a: "amount a = fdiv (real_of_int (js_round (fmul (fdiv (fmul A
        (fsub 1 (fmul (fdiv (real i) (real (length ts))) (lit 0.5)))) (real (length ts))) 100))) 100"
    by (rule bucketAllocations_member)
  define n where "n = real (length ts)"
  define w where "w = fsub 1 (fmul (fdiv (real i) (real (length ts))) (lit 0.5))"
  define a1 where "a1 = fmul A w"
  define a2 where "a2 = fdiv a1 n"
  define a3 where "a3 = fmul a2 100"
  have n: "1 \<le> n" using i by (simp add: n_def)
  have w: "1 / 2 \<le> w" "w \<le> 1" using weight_range [OF i] by (simp_all add: w_def)
  have "\<bar>A * w\<bar> = \<bar>A\<bar> * w" using w by (simp add: abs_mult)
  also have "\<dots> \<le> \<bar>A\<bar> * 1" using w by (intro mult_left_mono) simp_all
  finally have "\<bar>A * w\<bar> \<le> 1 / 1024" using assms(1) by simp
  then have a1: "\<bar>a1\<bar> \<le> 1 / 1024" unfolding a1_def fmul_def by (rule fl_abs_le_num(4))
  have "\<bar>a1\<bar> * 1 \<le> \<bar>a1\<bar> * n" using n by (intro mult_left_mono) simp_all
  then have "\<bar>a1\<bar> / n \<le> \<bar>a1\<bar>" using n by (simp add: divide_le_eq)
  moreover have "\<bar>a1 / n\<bar> = \<bar>a1\<bar> / n" using n by simp
  ultimately have "\<bar>a1 / n\<bar> \<le> 1 / 1024" using a1 by linarith
  then have a2: "\<bar>a2\<bar> \<le> 1 / 1024" unfolding a2_def fdiv_def by (rule fl_abs_le_num(4))
  then have "\<bar>a2 * 100\<bar> \<le> 1 / 8" by simp
  then have a3: "\<bar>a3\<bar> \<le> 1 / 8" unfolding a3_def fmul_def by (rule fl_abs_le_num(5))
  then have "0 \<le> a3 + 1 / 2" "a3 + 1 / 2 < 1" by linarith+
  then have "js_round a3 = 0" unfolding js_round_def by (simp add: floor_eq_iff)
  then show ?thesis
    by (simp add: a a3_def a2_def a1_def w_def n_def fdiv_def [of 0])
qed

lemma conservative_speculative_zero:
  assumes "0 \<le> I" "I \<le> 1000000000000"
    and "a \<in> set (generateAllocations pts ''conservative'' I ex)" "category a = Speculative"
  shows "amount a = 0"
proof -
  have "a \<in> set (bucketAllocations (fsub (fsub I (fmul I (lit 0.8))) (fmul I (lit 0.2)))
                   Speculative (filteredSpeculative pts ''conservative'' ex))"
    using assms(3,4) by (auto simp add: generateAllocations_def Let_def allocationParameters_def
        dest: bucketAllocations_category)
  then show ?thesis
    using conservative_remaining_small [OF assms(1,2)] by (intro bucket_amount_zero)
qed

lemma conservative_speculative_bucket:
  "length (filteredSpeculative pts ''conservative'' ex) \<le> 1"
  unfolding filteredSpeculative_def Let_def
  by (intro order_trans [OF length_filter_le])
     (simp add: allocationParameters_def bucketSize_def fl_ops fl_consts)

lemmas allocation_eval =
  generateAllocations_def filteredEstablished_def filteredNew_def filteredSpeculative_def
  allocationParameters_def bucketSize_def bucketAllocations_def sampleToken_def Let_def
  js_round_def enumerate_eq_zip fl_ops fl_consts

text \<open>
  C3, as stated, fails: with the moderate preset, an investment of 100.06 and one token
  in each bucket, the three amounts are 60.04, 30.02 and 10.01; their sum 100.07
  exceeds the investment.
\<close>

theorem allocation_sum_counterexample:
  "map recAmount (recommendations (generatePortfolioAllocation
         [sampleToken ''A'' 80 0.75, sampleToken ''B'' 50 0.5, sampleToken ''C'' 10 0.25]
         ''moderate'' (lit 100.06) None))
     = [lit 60.04, lit 30.02, lit 10.01] \<and>
   \<not> sum_list (map recAmount (recommendations (generatePortfolioAllocation
         [sampleToken ''A'' 80 0.75, sampleToken ''B'' 50 0.5, sampleToken ''C'' 10 0.25]
         ''moderate'' (lit 100.06) None))) \<le> lit 100.06"
  by (simp add: recommendations_amounts allocation_eval)

text \<open>
  C3, amended.  For every risk tolerance, every investment size from 0 to \<open>10^9\<close> and
  every list of processed tokens, the sum of the recommended amounts (each rounded to
  cents) is at most the investment size plus half a cent for each recommendation plus
  0.00001; there are at most ten recommendations.
\<close>

theorem allocation_sum_bound:
  assumes "0 \<le> investmentSize" "investmentSize \<le> 1000000000"
  shows "sum_list (map recAmount (recommendations
           (generatePortfolioAllocation pts rt investmentSize ex)))
         \<le> investmentSize
            + real (length (recommendations
                (generatePortfolioAllocation pts rt investmentSize ex))) / 200
            + 1 / 100000 \<and>
         length (recommendations (generatePortfolioAllocation pts rt investmentSize ex)) \<le> 10"
proof -
  have l: "length (recommendations (generatePortfolioAllocation pts rt investmentSize ex))
             = length (generateAllocations pts rt investmentSize ex)"
    by (simp add: generatePortfolioAllocation_def Let_def)
  show ?thesis
    unfolding recommendations_amounts l
    using generateAllocations_sum [OF assms, of pts rt ex]
      generateAllocations_at_most_ten [of pts rt investmentSize ex]
    by simp
qed

theorem allocation_sum_bound_witness:
  "0 \<le> lit 100.06 \<and> lit 100.06 \<le> 1000000000 \<and>
   sum_list (map recAmount (recommendations (generatePortfolioAllocation
         [sampleToken ''A'' 80 0.75, sampleToken ''B'' 50 0.5, sampleToken ''C'' 10 0.25]
         ''moderate'' (lit 100.06) None)))
     \<le> lit 100.06
        + real (length (recommendations (generatePortfolioAllocation
            [sampleToken ''A'' 80 0.75, sampleToken ''B'' 50 0.5, sampleToken ''C'' 10 0.25]
            ''moderate'' (lit 100.06) None))) / 200
        + 1 / 100000"
proof -
  have h: "0 \<le> lit 100.06" "lit 100.06 \<le> 1000000000"
    by (simp_all add: fl_ops fl_consts)
  from allocation_sum_bound [OF h] h show ?thesis by blast
qed

text \<open>
  C5, as stated, fails in both halves.  Under the conservative preset the speculative
  bucket keeps \<open>max 1 (floor (3 * 0.2)) = 1\<close> token, so a token with a safety score
  below 49 is allocated in category speculative: with the amount 0 for an investment
  of 100, and with the amount 0.01 for an investment of 207290533598787, where the
  rounded subtractions leave 0.0078125 of the investment.
\<close>

theorem conservative_speculative_counterexample:
  "map (\<lambda>a. (address (token a), category a, amount a))
     (generateAllocations [sampleToken ''C'' 10 0.25] ''conservative'' 100 None)
     = [(''C'', Speculative, 0)] \<and>
   map (\<lambda>a. (address (token a), category a, amount a))
     (generateAllocations [sampleToken ''C'' 10 0.25] ''conservative'' 207290533598787 None)
     = [(''C'', Speculative, lit 0.01)] \<and>
   0 < lit 0.01"
  by (simp add: allocation_eval)

text \<open>
  C5, amended.  For every list of processed tokens and every investment size from 0 to
  \<open>10^12\<close>, a portfolio generated with the risk tolerance "conservative" contains at
  most one allocation of category speculative, and the amount of that allocation is 0.
\<close>

theorem conservative_speculative_amount_zero:
  assumes "0 \<le> investmentSize" "investmentSize \<le> 1000000000000"
  shows "(\<forall>a \<in> set (generateAllocations pts ''conservative'' investmentSize ex).
            category a = Speculative \<longrightarrow> amount a = 0) \<and>
         length (filter (\<lambda>a. category a = Speculative)
                   (generateAllocations pts ''conservative'' investmentSize ex)) \<le> 1"
proof -
  have "length (filter (\<lambda>a. category a = Speculative)
                   (generateAllocations pts ''conservative'' investmentSize ex))
          = length (filteredSpeculative pts ''conservative'' ex)"
    by (simp add: generateAllocations_def Let_def bucketAllocations_def split_def comp_def)
  then show ?thesis
    using conservative_speculative_zero [OF assms, of _ pts ex]
      conservative_speculative_bucket [of pts ex]
    by auto
qed

theorem conservative_speculative_amount_zero_witness:
  "(0::real) \<le> 100 \<and> (100::real) \<le> 1000000000000 \<and>
   hd (generateAllocations [sampleToken ''C'' 10 0.25] ''conservative'' 100 None)
     \<in> set (generateAllocations [sampleToken ''C'' 10 0.25] ''conservative'' 100 None) \<and>
   category (hd (generateAllocations [sampleToken ''C'' 10 0.25] ''conservative'' 100 None))
     = Speculative \<and>
   amount (hd (generateAllocations [sampleToken ''C'' 10 0.25] ''conservative'' 100 None)) = 0"
proof -
  let ?as = "generateAllocations [sampleToken ''C'' 10 0.25] ''conservative'' 100 None"
  have h: "(0::real) \<le> 100" "(100::real) \<le> 1000000000000" by simp_all
  have m: "hd ?as \<in> set ?as" and c: "category (hd ?as) = Speculative"
    by (simp_all add: allocation_eval)
  from conservative_speculative_amount_zero [OF h, of "[sampleToken ''C'' 10 0.25]" None] m c
  have "amount (hd ?as) = 0" by blast
  with m c h show ?thesis by blast
qed

section \<open>Properties of the meme correlator\<close>

lemma includesString_empty: "includesString haystack []"
  by (cases haystack) simp_all

lemma includesString_self: "includesString s s"
  by (cases s) simp_all

lemma memeCorrelation_le_1: "memeCorrelation n s m \<le> 1"
  by (simp add: memeCorrelation_def Let_def)

lemma correlationEntries_range:
  "e \<in> set (correlationEntries n s ms) \<Longrightarrow> 0.1 < correlation e \<and> correlation e \<le> 1"
  by (induction ms) (auto simp add: Let_def memeCorrelation_le_1 split: if_splits)

lemma correlationEntries_member:
  "m \<in> set ms \<Longrightarrow> 0.1 < memeCorrelation n s m \<Longrightarrow>
   \<lparr> meme = memeName m, correlation = memeCorrelation n s m,
     entrySource = memeSource m, entryDate = memeDate m \<rparr> \<in> set (correlationEntries n s ms)"
  by (induction ms) (auto simp add: Let_def)

lemma correlationEntries_length: "length (correlationEntries n s ms) \<le> length ms"
  by (induction ms) (auto simp add: Let_def)

lemma calculateMemeCorrelation_set:
  "set (calculateMemeCorrelation n s ms) = set (correlationEntries (toLowerCase n) (toLowerCase s) ms)"
  by (simp add: calculateMemeCorrelation_def Let_def)

lemma calculateMemeCorrelation_descending:
  "sorted_wrt (\<lambda>a b. correlation a \<ge> correlation b) (calculateMemeCorrelation n s ms)"
proof -
  have "sorted (map (\<lambda>e. - correlation e) (calculateMemeCorrelation n s ms))"
    unfolding calculateMemeCorrelation_def Let_def by (rule sorted_sort_key)
  then show ?thesis
    by (simp add: sorted_wrt_map)
qed

lemma memeCorrelation_same_words:
  assumes "set (splitWords n) = set (splitWords (toLowerCase (memeName m)))"
    and "splitWords n \<noteq> []"
    and "s = toLowerCase (memeName m)"
  shows "memeCorrelation n s m = 1"
proof -
  define tw where "tw = splitWords n"
  define mw where "mw = splitWords (toLowerCase (memeName m))"
  have eq: "set tw = set mw" using assms(1) by (simp add: tw_def mw_def)
  have ne: "tw \<noteq> []" using assms(2) by (simp add: tw_def)
  have i: "length (filter (\<lambda>word. word \<in> set mw) tw) = length tw"
    using eq by simp
  have "set (tw @ mw) = set tw" using eq by auto
  then have "length (remdups (tw @ mw)) = card (set tw)"
    by (simp only: length_remdups_card_conv)
  then have u: "length (remdups (tw @ mw)) \<le> length tw" "0 < length (remdups (tw @ mw))"
    using ne by (simp_all add: card_length card_gt_0_iff)
  have l: "0 < length tw" using ne by simp
  define q where "q = real (length tw) / real (length (remdups (tw @ mw)))"
  have q: "1 \<le> q"
    using u by (simp add: q_def)
  have "memeCorrelation n s m = min (q + 0.3) 1"
    using l i includesString_self [of "toLowerCase (memeName m)"]
    unfolding memeCorrelation_def Let_def assms(3) tw_def [symmetric] mw_def [symmetric]
    by (simp add: q_def)
  with q show ?thesis by simp
qed

lemma memeCorrelation_empty_symbol: "3 / 10 \<le> memeCorrelation n [] m"
proof -
  have "0 \<le> (if 0 < (i::nat) then real i / real u else 0)" for i u by simp
  then show ?thesis
    unfolding memeCorrelation_def Let_def by (simp add: includesString_empty)
qed

lemma correlationEntries_empty_symbol:
  "correlationEntries n [] ms =
     map (\<lambda>m. \<lparr> meme = memeName m, correlation = memeCorrelation n [] m,
                entrySource = memeSource m, entryDate = memeDate m \<rparr>) ms"
proof (induction ms)
  case Nil
  then show ?case by simp
next
  case (Cons m ms)
  have "0.1 < memeCorrelation n [] m"
    using memeCorrelation_empty_symbol [of n m] by simp
  with Cons show ?case by (simp add: Let_def)
qed


lemmas correlator_eval =
  calculateMemeCorrelation_def memeCorrelation_def splitWords_def toLowerCase_def
  toLowerChar_def isWordChar_def Let_def

text \<open>
  C7, as stated, fails in its last part: a meme name without any word character, such
  as \<open>!!!\<close>, has the empty word set.  A token with the symbol \<open>!!!\<close> and a name that has
  the same (empty) word set gets no overlap (the overlap is 0 when no word is shared),
  so its correlation with the meme is the symbol bonus 0.3 alone, not 1.0.
\<close>

theorem meme_symbol_match_counterexample:
  "set (splitWords (toLowerCase ''???'')) = set (splitWords (toLowerCase ''!!!'')) \<and>
   map (\<lambda>e. (meme e, correlation e))
     (calculateMemeCorrelation ''???'' ''!!!''
        [\<lparr> memeName = ''!!!'', memeSource = ''reddit'', memeDate = ''today'' \<rparr>])
     = [(''!!!'', 3 / 10)] \<and>
   memeCorrelation (toLowerCase ''???'') (toLowerCase ''!!!'')
     \<lparr> memeName = ''!!!'', memeSource = ''reddit'', memeDate = ''today'' \<rparr> \<noteq> 1"
  by (simp add: correlator_eval)

text \<open>
  C7, amended.  For every token name, token symbol and list of trending memes, every
  entry returned by \<open>calculateMemeCorrelation\<close> has a correlation above 0.1 and at most
  1.0, and the returned list is in descending order of correlation.  For a meme of the
  list whose name is the token's symbol and has the same word set as the token's name,
  that word set being non-empty, the correlation is 1.0 and the meme is returned with
  it.
\<close>

theorem calculateMemeCorrelation_range_sorted_match:
  "(\<forall>e \<in> set (calculateMemeCorrelation tokenName tokenSymbol ms).
      0.1 < correlation e \<and> correlation e \<le> 1) \<and>
   sorted_wrt (\<lambda>a b. correlation a \<ge> correlation b)
     (calculateMemeCorrelation tokenName tokenSymbol ms) \<and>
   (\<forall>m \<in> set ms.
      tokenSymbol = memeName m \<and>
      set (splitWords (toLowerCase tokenName)) = set (splitWords (toLowerCase (memeName m))) \<and>
      splitWords (toLowerCase tokenName) \<noteq> []
      \<longrightarrow> memeCorrelation (toLowerCase tokenName) (toLowerCase tokenSymbol) m = 1 \<and>
          (\<exists>e \<in> set (calculateMemeCorrelation tokenName tokenSymbol ms).
             meme e = memeName m \<and> correlation e = 1))"
proof (intro conjI ballI impI)
  fix e assume "e \<in> set (calculateMemeCorrelation tokenName tokenSymbol ms)"
  then have "0.1 < correlation e \<and> correlation e \<le> 1"
    unfolding calculateMemeCorrelation_set by (rule correlationEntries_range)
  then show "0.1 < correlation e" and "correlation e \<le> 1" by simp_all
next
  show "sorted_wrt (\<lambda>a b. correlation a \<ge> correlation b)
          (calculateMemeCorrelation tokenName tokenSymbol ms)"
    by (rule calculateMemeCorrelation_descending)
next
  fix m
  assume m: "m \<in> set ms"
    and h: "tokenSymbol = memeName m \<and>
      set (splitWords (toLowerCase tokenName)) = set (splitWords (toLowerCase (memeName m))) \<and>
      splitWords (toLowerCase tokenName) \<noteq> []"
  then have one: "memeCorrelation (toLowerCase tokenName) (toLowerCase tokenSymbol) m = 1"
    by (intro memeCorrelation_same_words) simp_all
  show "memeCorrelation (toLowerCase tokenName) (toLowerCase tokenSymbol) m = 1"
    by (rule one)
  have "\<lparr> meme = memeName m,
          correlation = memeCorrelation (toLowerCase tokenName) (toLowerCase tokenSymbol) m,
          entrySource = memeSource m, entryDate = memeDate m \<rparr>
        \<in> set (calculateMemeCorrelation tokenName tokenSymbol ms)"
    unfolding calculateMemeCorrelation_set using m one
    by (intro correlationEntries_member) simp_all
  then show "\<exists>e \<in> set (calculateMemeCorrelation tokenName tokenSymbol ms).
               meme e = memeName m \<and> correlation e = 1"
    using one by force
qed

theorem calculateMemeCorrelation_range_sorted_match_witness:
  "\<lparr> memeName = ''Cat'', memeSource = ''r'', memeDate = ''d'' \<rparr>
     \<in> set [\<lparr> memeName = ''Cat'', memeSource = ''r'', memeDate = ''d'' \<rparr>] \<and>
   set (splitWords (toLowerCase ''Cat'')) = set (splitWords (toLowerCase ''Cat'')) \<and>
   splitWords (toLowerCase ''Cat'') \<noteq> [] \<and>
   memeCorrelation (toLowerCase ''Cat'') (toLowerCase ''Cat'')
     \<lparr> memeName = ''Cat'', memeSource = ''r'', memeDate = ''d'' \<rparr> = 1 \<and>
   (\<exists>e \<in> set (calculateMemeCorrelation ''Cat'' ''Cat''
                 [\<lparr> memeName = ''Cat'', memeSource = ''r'', memeDate = ''d'' \<rparr>]).
      meme e = ''Cat'' \<and> 0.1 < correlation e \<and> correlation e = 1)"
proof -
  let ?m = "\<lparr> memeName = ''Cat'', memeSource = ''r'', memeDate = ''d'' \<rparr>"
  have w: "splitWords (toLowerCase ''Cat'') \<noteq> []"
    by (simp add: splitWords_def toLowerCase_def toLowerChar_def isWordChar_def)
  have h: "?m \<in> set [?m]" "''Cat'' = memeName ?m"
    "set (splitWords (toLowerCase ''Cat'')) = set (splitWords (toLowerCase (memeName ?m)))"
    by simp_all
  note t = calculateMemeCorrelation_range_sorted_match [of "''Cat''" "''Cat''" "[?m]"]
  from t h w have one: "memeCorrelation (toLowerCase ''Cat'') (toLowerCase ''Cat'') ?m = 1"
    by blast
  from t h w obtain e where e: "e \<in> set (calculateMemeCorrelation ''Cat'' ''Cat'' [?m])"
    "meme e = memeName ?m" "correlation e = 1"
    by blast
  from t e(1) have "0.1 < correlation e" by blast
  with e have "\<exists>e \<in> set (calculateMemeCorrelation ''Cat'' ''Cat'' [?m]).
      meme e = ''Cat'' \<and> 0.1 < correlation e \<and> correlation e = 1"
    by auto
  with one w show ?thesis by simp
qed

text \<open>
  C9.  For a token whose symbol is the empty string, the symbol bonus applies to every
  meme (the empty string occurs in every meme name): every meme of the list yields a
  returned entry, and every returned entry has a correlation of at least 0.3, whatever
  the token name shares with the meme name.
\<close>

theorem empty_symbol_matches_every_meme:
  "length (calculateMemeCorrelation tokenName [] ms) = length ms \<and>
   (\<forall>e \<in> set (calculateMemeCorrelation tokenName [] ms). 0.3 \<le> correlation e) \<and>
   (\<forall>m \<in> set ms. includesString (toLowerCase (memeName m)) (toLowerCase []) \<and>
      (\<exists>e \<in> set (calculateMemeCorrelation tokenName [] ms).
         meme e = memeName m \<and> entrySource e = memeSource m \<and> entryDate e = memeDate m \<and>
         0.3 \<le> correlation e))"
proof -
  have lc: "toLowerCase [] = []" by (simp add: toLowerCase_def)
  have s: "set (calculateMemeCorrelation tokenName [] ms) =
        (\<lambda>m. \<lparr> meme = memeName m, correlation = memeCorrelation (toLowerCase tokenName) [] m,
                entrySource = memeSource m, entryDate = memeDate m \<rparr>) ` set ms"
    by (simp add: calculateMemeCorrelation_set lc correlationEntries_empty_symbol)
  have l: "length (calculateMemeCorrelation tokenName [] ms) = length ms"
    by (simp add: calculateMemeCorrelation_def Let_def lc correlationEntries_empty_symbol)
  have b: "3 / 10 \<le> memeCorrelation (toLowerCase tokenName) [] m" for m
    by (rule memeCorrelation_empty_symbol)
  show ?thesis
    unfolding s using l b by (auto simp add: lc includesString_empty s)
qed

theorem empty_symbol_matches_every_meme_witness:
  "length (calculateMemeCorrelation ''Dog'' []
             [\<lparr> memeName = ''Cat'', memeSource = ''r'', memeDate = ''d'' \<rparr>]) = 1 \<and>
   (\<exists>e \<in> set (calculateMemeCorrelation ''Dog'' []
                 [\<lparr> memeName = ''Cat'', memeSource = ''r'', memeDate = ''d'' \<rparr>]).
      meme e = ''Cat'' \<and> 0.3 \<le> correlation e)"
proof -
  let ?m = "\<lparr> memeName = ''Cat'', memeSource = ''r'', memeDate = ''d'' \<rparr>"
  note t = empty_symbol_matches_every_meme [of "''Dog''" "[?m]"]
  have "?m \<in> set [?m]" by simp
  with t obtain e where "e \<in> set (calculateMemeCorrelation ''Dog'' [] [?m])"
    "meme e = memeName ?m" "0.3 \<le> correlation e"
    by blast
  then have "\<exists>e \<in> set (calculateMemeCorrelation ''Dog'' [] [?m]).
      meme e = ''Cat'' \<and> 0.3 \<le> correlation e"
    by auto
  with t show ?thesis by simp
qed

end
